theory Spec2Isabelle
  imports Complex_Main "HOL-Library.AList" "HOL-Library.While_Combinator"
begin

section \<open>Iterative Allocation Process (IAP) reference model\<close>

text \<open>
  A shallow embedding of \<^verbatim>\<open>src/harness/reference_models/iap/iap.py\<close>.
  Python floats are read as real numbers, a Python \<^verbatim>\<open>dict\<close> as an association
  list whose order is the iteration order of the dictionary, an exception as a value
  of \<open>py_error\<close>, and a loop that may run forever as a function into \<open>option\<close>.
\<close>

subsection \<open>Data model\<close>

datatype py_error = KeyError | IndexError | ZeroDivisionError | ValueError

text \<open>
  Modelled from the spec: \<^verbatim>\<open>interf.ProtectedEntityType\<close> is declared in the
  interference module, which is not among the sources. The spec has a closed set of
  five tags; the names are the members that \<^verbatim>\<open>iap.py\<close> refers to.
\<close>

datatype ProtectedEntityType = GWPZ_AREA | PPA_AREA | FSS_CO_CHANNEL | FSS_BLOCKING | ESC

type_synonym point = "real \<times> real"
type_synonym channel = "real \<times> real"

text \<open>
  Modelled from the spec: the type of a grant is declared in the interference module.
  \<^verbatim>\<open>iap.py\<close> reads \<^verbatim>\<open>max_eirp\<close> and \<^verbatim>\<open>is_managed_grant\<close>; the other fields are
  the geographic position and the frequency range that the spec lists.
\<close>

record grant =
  max_eirp :: real
  is_managed_grant :: bool
  grant_latitude :: real
  grant_longitude :: real
  grant_low_frequency :: real
  grant_high_frequency :: real

text \<open>\<^verbatim>\<open>interf.ProtectionConstraint(latitude, longitude, low_frequency, high_frequency, entity_type)\<close>\<close>

record ProtectionConstraint =
  latitude :: real
  longitude :: real
  low_frequency :: real
  high_frequency :: real
  entity_type :: ProtectedEntityType

text \<open>\<^verbatim>\<open>interf.FssProtectionPoint\<close> and \<^verbatim>\<open>interf.EscInformation\<close>, as the drivers build them.\<close>

record FssProtectionPoint =
  fss_latitude :: real
  fss_longitude :: real
  height_agl :: real
  max_gain_dbi :: real
  pointing_azimuth :: real
  pointing_elevation :: real

record EscInformation =
  antenna_height :: real
  antenna_azimuth :: real
  antenna_gain :: real
  antenna_pattern_gain :: "int list"

subsection \<open>The aggregation stores\<close>

text \<open>
  A nested dictionary \<^verbatim>\<open>{latitude: {longitude: [value, ...]}}\<close>. The two module-level
  stores \<^verbatim>\<open>asas_interference\<close> and \<^verbatim>\<open>aggregate_interference\<close> are the state that the
  routines pass along.
\<close>

type_synonym lon_dict = "(real \<times> real list) list"
type_synonym lat_dict = "(real \<times> lon_dict) list"

record iap_state =
  asas_interference :: lat_dict
  aggregate_interference :: lat_dict

definition lookup2 :: "lat_dict \<Rightarrow> real \<Rightarrow> real \<Rightarrow> real list option" where
  "lookup2 d lat lon = (case map_of d lat of None \<Rightarrow> None | Some m \<Rightarrow> map_of m lon)"

text \<open>A dictionary has no key twice.\<close>

definition is_dict :: "lat_dict \<Rightarrow> bool" where
  "is_dict d = (distinct (map fst d) \<and> list_all (\<lambda>p. distinct (map fst (snd p))) d)"

text \<open>\<^verbatim>\<open>asas_interference.__init__()\<close> and \<^verbatim>\<open>aggregate_interference.__init__()\<close>.\<close>

definition reset_stores :: "iap_state \<Rightarrow> iap_state" where
  "reset_stores st = st\<lparr>asas_interference := [], aggregate_interference := []\<rparr>"

text \<open>
  Modelled from the spec: \<^verbatim>\<open>AggregateInterferenceOutputFormat.SetAggregateInterferenceInfo\<close>
  is a method of the interference module, which is not among the sources. The spec:
  the value is written at the point's (latitude, longitude), appended as the next
  element of the channel-ordered list.
\<close>

definition SetAggregateInterferenceInfo :: "real \<Rightarrow> real \<Rightarrow> real \<Rightarrow> lat_dict \<Rightarrow> lat_dict" where
  "SetAggregateInterferenceInfo lat lon interference d =
     (let m = (case map_of d lat of None \<Rightarrow> [] | Some m \<Rightarrow> m);
          xs = (case map_of m lon of None \<Rightarrow> [] | Some xs \<Rightarrow> xs)
      in AList.update lat (AList.update lon (xs @ [interference]) m) d)"

subsection \<open>Final combination: \<^verbatim>\<open>calculateApIapRef\<close>\<close>

text \<open>
  The innermost loop, \<^verbatim>\<open>for index, a_p in enumerate(a_p_list)\<close>: the values appended to
  \<^verbatim>\<open>ap_iap_ref[latitude][longitude]\<close>. A division by \<^verbatim>\<open>num_sas = 0\<close> raises, and so
  does a key or an index that \<^verbatim>\<open>asas_info\<close> does not have.
\<close>

fun ap_iap_values ::
  "real \<Rightarrow> nat \<Rightarrow> lat_dict \<Rightarrow> real \<Rightarrow> real \<Rightarrow> nat \<Rightarrow> real list \<Rightarrow> py_error + real list" where
  "ap_iap_values q_p num_sas asas_info lat lon index [] = Inr []"
| "ap_iap_values q_p num_sas asas_info lat lon index (a_p # a_p_list) =
     (if num_sas = 0 then Inl ZeroDivisionError
      else case map_of asas_info lat of
        None \<Rightarrow> Inl KeyError
      | Some m \<Rightarrow>
         (case map_of m lon of
            None \<Rightarrow> Inl KeyError
          | Some asas_list \<Rightarrow>
             if index < length asas_list
             then (case ap_iap_values q_p num_sas asas_info lat lon (Suc index) a_p_list of
                     Inl e \<Rightarrow> Inl e
                   | Inr vs \<Rightarrow> Inr (((q_p - a_p) / real num_sas + asas_list ! index) # vs))
             else Inl IndexError))"

text \<open>
  \<^verbatim>\<open>for longitude, a_p_list in a_p_ch.items()\<close>. The body starts with
  \<^verbatim>\<open>ap_iap_ref[latitude] = {}\<close>, so the entry of the latitude is replaced by a
  dictionary that holds this longitude only.
\<close>

fun ap_iap_longitudes ::
  "real \<Rightarrow> nat \<Rightarrow> lat_dict \<Rightarrow> real \<Rightarrow> lon_dict \<Rightarrow> lat_dict \<Rightarrow> py_error + lat_dict" where
  "ap_iap_longitudes q_p num_sas asas_info lat [] ap_iap_ref = Inr ap_iap_ref"
| "ap_iap_longitudes q_p num_sas asas_info lat ((lon, a_p_list) # a_p_ch) ap_iap_ref =
     (case ap_iap_values q_p num_sas asas_info lat lon 0 a_p_list of
        Inl e \<Rightarrow> Inl e
      | Inr vs \<Rightarrow>
          ap_iap_longitudes q_p num_sas asas_info lat a_p_ch
            (AList.update lat [(lon, vs)] ap_iap_ref))"

text \<open>\<^verbatim>\<open>for latitude, a_p_ch in a_p_info.items()\<close>\<close>

fun ap_iap_latitudes ::
  "real \<Rightarrow> nat \<Rightarrow> lat_dict \<Rightarrow> lat_dict \<Rightarrow> lat_dict \<Rightarrow> py_error + lat_dict" where
  "ap_iap_latitudes q_p num_sas asas_info [] ap_iap_ref = Inr ap_iap_ref"
| "ap_iap_latitudes q_p num_sas asas_info ((lat, a_p_ch) # a_p_info) ap_iap_ref =
     (case ap_iap_longitudes q_p num_sas asas_info lat a_p_ch ap_iap_ref of
        Inl e \<Rightarrow> Inl e
      | Inr ap_iap_ref' \<Rightarrow> ap_iap_latitudes q_p num_sas asas_info a_p_info ap_iap_ref')"

definition calculateApIapRef :: "real \<Rightarrow> nat \<Rightarrow> iap_state \<Rightarrow> py_error + lat_dict" where
  "calculateApIapRef q_p num_sas st =
     ap_iap_latitudes q_p num_sas (asas_interference st) (aggregate_interference st) []"

subsection \<open>What the routines take from the interference module\<close>

text \<open>
  Modelled from the spec: \<^verbatim>\<open>interf.linearToDb\<close> and \<^verbatim>\<open>interf.dbToLinear\<close> are functions
  of the interference module, which is not among the sources. The spec's threshold
  formula reads linear-to-logarithmic as \<open>10 \<cdot> log10\<close>, and logarithmic-to-linear
  is its inverse.
\<close>

definition linearToDb :: "real \<Rightarrow> real" where
  "linearToDb x = 10 * log 10 x"

definition dbToLinear :: "real \<Rightarrow> real" where
  "dbToLinear x = 10 powr (x / 10)"

text \<open>
  The constants and functions of \<^verbatim>\<open>interf\<close> that \<^verbatim>\<open>iap.py\<close> uses and whose code is not
  among the sources are parameters of the model. \<open>'fad\<close> is the type of a FAD object.
\<close>

record 'fad interf =
  IAPBW_HZ :: real
  MHZ :: real
  GWPZ_RBW_HZ :: real
  PPA_RBW_HZ :: real
  ESC_CH21_CF_HZ :: real
  ESC_LOW_FREQ_HZ :: real
  ESC_HIGH_FREQ_HZ :: real
  CBRS_LOW_FREQ_HZ :: real
  CBRS_HIGH_FREQ_HZ :: real
  FSS_TTC_LOW_FREQ_HZ :: real
  FSS_TTC_HIGH_FREQ_HZ :: real
  findGrantsInsideNeighborhood :: "grant list \<Rightarrow> point \<Rightarrow> ProtectedEntityType \<Rightarrow> grant list"
  findOverlappingGrants :: "grant list \<Rightarrow> ProtectionConstraint \<Rightarrow> grant list"
  computeInterference ::
    "grant \<Rightarrow> real \<Rightarrow> ProtectionConstraint \<Rightarrow> FssProtectionPoint option \<Rightarrow>
     EscInformation option \<Rightarrow> string option \<Rightarrow> real"
  getProtectedChannels :: "real \<Rightarrow> real \<Rightarrow> channel list"
  getGrantObjectsFromFAD :: "'fad \<Rightarrow> 'fad list \<Rightarrow> grant list"

subsection \<open>Constants of \<^verbatim>\<open>iap.py\<close>\<close>

definition Q_PPA_DBM_PER_RBW :: real where "Q_PPA_DBM_PER_RBW = - 80"
definition Q_GWPZ_DBM_PER_RBW :: real where "Q_GWPZ_DBM_PER_RBW = - 80"
definition Q_FSS_CO_CHANNEL_DBM_PER_RBW :: real where "Q_FSS_CO_CHANNEL_DBM_PER_RBW = - 129"
definition Q_FSS_BLOCKING_DBM_PER_RBW :: real where "Q_FSS_BLOCKING_DBM_PER_RBW = - 60"
definition Q_ESC_DBM_PER_RBW :: real where "Q_ESC_DBM_PER_RBW = - 109"

definition MG_PPA_DB :: real where "MG_PPA_DB = 1"
definition MG_GWPZ_DB :: real where "MG_GWPZ_DB = 1"
definition MG_FSS_CO_CHANNEL_DB :: real where "MG_FSS_CO_CHANNEL_DB = 1"
definition MG_FSS_BLOCKING_DB :: real where "MG_FSS_BLOCKING_DB = 1"
definition MG_ESC_DB :: real where "MG_ESC_DB = 1"

subsection \<open>The point and channel allocator: \<^verbatim>\<open>iapPointConstraint\<close>\<close>

text \<open>
  The interference quota of a channel (the first \<^verbatim>\<open>if\<close> of the channel loop): the
  roll-off attenuation of an ESC sensor applies when \<^verbatim>\<open>channel[0] >= 3650.e6\<close>.
\<close>

definition channel_interference_quota ::
  "'fad interf \<Rightarrow> ProtectedEntityType \<Rightarrow> real \<Rightarrow> channel \<Rightarrow> real" where
  "channel_interference_quota I protection_ent_type threshold channel =
     (if protection_ent_type = ESC then
        (if fst channel \<ge> 3650000000 then
           (let center_freq = (fst channel + snd channel) / 2
            in dbToLinear (linearToDb threshold -
                 (2.5 + ((center_freq - ESC_CH21_CF_HZ I) / MHZ I))))
         else threshold)
      else if protection_ent_type = FSS_BLOCKING then threshold
      else threshold)"

text \<open>For FSS blocking the channel is replaced: \<^verbatim>\<open>channel = [low_freq, high_freq]\<close>.\<close>

definition constraint_channel ::
  "ProtectedEntityType \<Rightarrow> real \<Rightarrow> real \<Rightarrow> channel \<Rightarrow> channel" where
  "constraint_channel protection_ent_type low_freq high_freq channel =
     (if protection_ent_type = FSS_BLOCKING then (low_freq, high_freq) else channel)"

definition channel_constraint_of ::
  "point \<Rightarrow> ProtectedEntityType \<Rightarrow> real \<Rightarrow> real \<Rightarrow> channel \<Rightarrow> ProtectionConstraint" where
  "channel_constraint_of protection_point protection_ent_type low_freq high_freq channel =
     (let ch = constraint_channel protection_ent_type low_freq high_freq channel
      in \<lparr>latitude = fst protection_point, longitude = snd protection_point,
          low_frequency = fst ch, high_frequency = snd ch,
          entity_type = protection_ent_type\<rparr>)"

text \<open>The variables of the convergence loop.\<close>

record iap_loop_state =
  interference_quota :: real
  num_unsatisfied_grants :: int
  fair_share :: real
  aggr_interference :: real
  a_sas_p_interference :: real
  grant_initialize_flag :: "bool list"
  grants_eirp :: "real list"

text \<open>
  The body of \<^verbatim>\<open>for index, grant in enumerate(neighborhood_grants)\<close>. The argument
  \<open>interference\<close> is the linear contribution of a grant at an EIRP,
  \<^verbatim>\<open>interf.dbToLinear(interf.computeInterference(grant, eirp, ...))\<close>. Both lists have
  one element per grant, so \<open>index\<close> is in range. No statement of the source
  assigns to \<^verbatim>\<open>grant_initialize_flag\<close>.
\<close>

definition probe_grant ::
  "(grant \<Rightarrow> real \<Rightarrow> real) \<Rightarrow> nat \<Rightarrow> grant \<Rightarrow> iap_loop_state \<Rightarrow> iap_loop_state" where
  "probe_grant interference index grant s =
     (if grant_initialize_flag s ! index = False then
        (let i = interference grant (grants_eirp s ! index) in
         if i < fair_share s then
           (let q = interference_quota s - i;
                n = num_unsatisfied_grants s - 1
            in s\<lparr>interference_quota := q,
                 num_unsatisfied_grants := n,
                 fair_share := (if n \<noteq> 0 then q / real_of_int n else fair_share s),
                 aggr_interference := aggr_interference s + i,
                 a_sas_p_interference :=
                   (if is_managed_grant grant then a_sas_p_interference s + i
                    else a_sas_p_interference s)\<rparr>)
         else s\<lparr>grants_eirp := (grants_eirp s)[index := grants_eirp s ! index - 1]\<rparr>)
      else s)"

text \<open>One pass of the \<^verbatim>\<open>for\<close> loop over all grants.\<close>

definition sweep :: "(grant \<Rightarrow> real \<Rightarrow> real) \<Rightarrow> grant list \<Rightarrow> iap_loop_state \<Rightarrow> iap_loop_state" where
  "sweep interference neighborhood_grants s =
     fold (\<lambda>(index, grant). probe_grant interference index grant)
       (enumerate 0 neighborhood_grants) s"

text \<open>The state before the \<^verbatim>\<open>while\<close> loop.\<close>

definition initial_loop_state :: "grant list \<Rightarrow> real \<Rightarrow> iap_loop_state" where
  "initial_loop_state neighborhood_grants quota =
     \<lparr>interference_quota = quota,
      num_unsatisfied_grants = int (length neighborhood_grants),
      fair_share = quota / real (length neighborhood_grants),
      aggr_interference = 0,
      a_sas_p_interference = 0,
      grant_initialize_flag = replicate (length neighborhood_grants) False,
      grants_eirp = map max_eirp neighborhood_grants\<rparr>"

text \<open>
  \<^verbatim>\<open>while (num_unsatisfied_grants > 0)\<close>: the source has no iteration cap, so the loop
  is \<open>while_option\<close>, whose value \<open>None\<close> stands for a run that does not end.
\<close>

definition convergence_loop ::
  "(grant \<Rightarrow> real \<Rightarrow> real) \<Rightarrow> grant list \<Rightarrow> real \<Rightarrow> iap_loop_state option" where
  "convergence_loop interference neighborhood_grants quota =
     while_option (\<lambda>s. 0 < num_unsatisfied_grants s)
       (sweep interference neighborhood_grants)
       (initial_loop_state neighborhood_grants quota)"

text \<open>\<^verbatim>\<open>for channel in channels\<close>, with the two writes to the stores at its end.\<close>

fun iap_channels ::
  "'fad interf \<Rightarrow> point \<Rightarrow> real \<Rightarrow> real \<Rightarrow> grant list \<Rightarrow> FssProtectionPoint option \<Rightarrow>
   EscInformation option \<Rightarrow> string option \<Rightarrow> real \<Rightarrow> ProtectedEntityType \<Rightarrow>
   channel list \<Rightarrow> iap_state \<Rightarrow> iap_state option" where
  "iap_channels I protection_point low_freq high_freq grants_inside fss_info esc_antenna_info
     region_type threshold protection_ent_type [] st = Some st"
| "iap_channels I protection_point low_freq high_freq grants_inside fss_info esc_antenna_info
     region_type threshold protection_ent_type (channel # channels) st =
     (let quota = channel_interference_quota I protection_ent_type threshold channel;
          channel_constraint =
            channel_constraint_of protection_point protection_ent_type low_freq high_freq channel;
          neighborhood_grants = findOverlappingGrants I grants_inside channel_constraint
      in if neighborhood_grants = [] then
           iap_channels I protection_point low_freq high_freq grants_inside fss_info
             esc_antenna_info region_type threshold protection_ent_type channels st
         else
           (case convergence_loop
                   (\<lambda>grant eirp. dbToLinear (computeInterference I grant eirp channel_constraint
                      fss_info esc_antenna_info region_type))
                   neighborhood_grants quota of
              None \<Rightarrow> None
            | Some s \<Rightarrow>
                iap_channels I protection_point low_freq high_freq grants_inside fss_info
                  esc_antenna_info region_type threshold protection_ent_type channels
                  (st\<lparr>asas_interference :=
                        SetAggregateInterferenceInfo (latitude channel_constraint)
                          (longitude channel_constraint) (a_sas_p_interference s)
                          (asas_interference st),
                      aggregate_interference :=
                        SetAggregateInterferenceInfo (latitude channel_constraint)
                          (longitude channel_constraint) (aggr_interference s)
                          (aggregate_interference st)\<rparr>)))"

definition iapPointConstraint ::
  "'fad interf \<Rightarrow> point \<Rightarrow> channel list \<Rightarrow> real \<Rightarrow> real \<Rightarrow> grant list \<Rightarrow>
   FssProtectionPoint option \<Rightarrow> EscInformation option \<Rightarrow> string option \<Rightarrow> real \<Rightarrow>
   ProtectedEntityType \<Rightarrow> iap_state \<Rightarrow> iap_state option" where
  "iapPointConstraint I protection_point channels low_freq high_freq grant_objects fss_info
     esc_antenna_info region_type threshold protection_ent_type st =
     (let grants_inside =
            findGrantsInsideNeighborhood I grant_objects protection_point protection_ent_type
      in if length grants_inside > 0 then
           iap_channels I protection_point low_freq high_freq grants_inside fss_info
             esc_antenna_info region_type threshold protection_ent_type channels st
         else Some st)"

subsection \<open>Protected entities\<close>

text \<open>
  The drivers read a protected entity as nested dictionaries; a record holds the
  entries they read. An entry that is missing raises in the source; the record
  types exclude that input.
\<close>

text \<open>
  An ESC sensor: the entries of \<^verbatim>\<open>protected_entity['installationParam']\<close>;
  \<open>azimuthRadiationPattern\<close> lists the \<^verbatim>\<open>'gain'\<close> of each pattern entry (the driver
  stores them in an integer array).
\<close>

record esc_entity =
  esc_latitude :: real
  esc_longitude :: real
  esc_height :: real
  esc_antennaAzimuth :: real
  esc_antennaGain :: real
  azimuthRadiationPattern :: "int list"

text \<open>
  A GWPZ: \<^verbatim>\<open>operationFrequencyRange\<close> of \<^verbatim>\<open>deploymentParam.operationParam\<close>, the
  \<^verbatim>\<open>clutter\<close> property of the first feature of \<^verbatim>\<open>zone\<close>, and the zone's polygon.
\<close>

record gwpz_entity =
  gwpz_lowFrequency :: real
  gwpz_highFrequency :: real
  gwpz_clutter :: string
  gwpz_zone :: "point list"

text \<open>A PPA: \<^verbatim>\<open>ppaInfo.ppaRegionType\<close>, \<^verbatim>\<open>ppaInfo.palId\<close> and the zone's polygon.\<close>

record ppa_entity =
  ppaRegionType :: string
  ppa_palId :: "string list"
  ppa_zone :: "point list"

text \<open>A PAL record: \<^verbatim>\<open>palId\<close> and \<^verbatim>\<open>channelAssignment.primaryAssignment\<close>.\<close>

record pal_record =
  palId :: string
  pal_lowFrequency :: real
  pal_highFrequency :: real

text \<open>
  An FSS: \<^verbatim>\<open>ttc\<close>, and of \<^verbatim>\<open>record.deploymentParam[0]\<close> the \<^verbatim>\<open>installationParam\<close>
  and the \<^verbatim>\<open>operationFrequencyRange\<close>.
\<close>

record fss_entity =
  ttc :: bool
  fss_ip_latitude :: real
  fss_ip_longitude :: real
  fss_ip_height :: real
  fss_ip_antennaGain :: real
  fss_ip_antennaAzimuth :: real
  fss_ip_antennaDowntilt :: real
  fss_lowFrequency :: real
  fss_highFrequency :: real

subsection \<open>Entity drivers\<close>

text \<open>
  A driver returns \<open>None\<close> when a convergence loop does not end, and otherwise what
  it returns or raises together with the stores it leaves behind.
\<close>

type_synonym driver_result = "((py_error + lat_dict) \<times> iap_state) option"

text \<open>
  \<^verbatim>\<open>pool.map(iapPoint, protection_points)\<close> followed by \<^verbatim>\<open>pool.close()\<close> and
  \<^verbatim>\<open>pool.join()\<close>: every point is processed before the driver goes on. The workers
  write to the same stores; the model runs them one after the other.
\<close>

fun pool_map :: "(point \<Rightarrow> iap_state \<Rightarrow> iap_state option) \<Rightarrow> point list \<Rightarrow> iap_state \<Rightarrow> iap_state option" where
  "pool_map iapPoint [] st = Some st"
| "pool_map iapPoint (p # protection_points) st =
     (case iapPoint p st of
        None \<Rightarrow> None
      | Some st' \<Rightarrow> pool_map iapPoint protection_points st')"

definition FssProtectionPoint_of :: "fss_entity \<Rightarrow> FssProtectionPoint" where
  "FssProtectionPoint_of fss_point =
     \<lparr>fss_latitude = fss_ip_latitude fss_point,
      fss_longitude = fss_ip_longitude fss_point,
      height_agl = fss_ip_height fss_point,
      max_gain_dbi = fss_ip_antennaGain fss_point,
      pointing_azimuth = fss_ip_antennaAzimuth fss_point,
      pointing_elevation = fss_ip_antennaDowntilt fss_point\<rparr>"

definition performIapForEsc ::
  "'fad interf \<Rightarrow> esc_entity \<Rightarrow> 'fad \<Rightarrow> 'fad list \<Rightarrow> iap_state \<Rightarrow> driver_result" where
  "performIapForEsc I protected_entity sas_uut_fad_object sas_th_fad_objects st =
     (let iap_threshold_esc = Q_ESC_DBM_PER_RBW + linearToDb (IAPBW_HZ I / MHZ I);
          iap_margin_esc = dbToLinear (iap_threshold_esc - MG_ESC_DB);
          grant_objects = getGrantObjectsFromFAD I sas_uut_fad_object sas_th_fad_objects;
          num_sas = length sas_th_fad_objects + 1;
          protection_point = (esc_latitude protected_entity, esc_longitude protected_entity);
          esc_antenna_info =
            \<lparr>antenna_height = esc_height protected_entity,
             antenna_azimuth = esc_antennaAzimuth protected_entity,
             antenna_gain = esc_antennaGain protected_entity,
             antenna_pattern_gain = azimuthRadiationPattern protected_entity\<rparr>;
          protection_channels = getProtectedChannels I (ESC_LOW_FREQ_HZ I) (ESC_HIGH_FREQ_HZ I);
          st1 = reset_stores st
      in case iapPointConstraint I protection_point protection_channels (ESC_LOW_FREQ_HZ I)
                (ESC_HIGH_FREQ_HZ I) grant_objects None (Some esc_antenna_info) None
                iap_margin_esc ESC st1 of
           None \<Rightarrow> None
         | Some st2 \<Rightarrow> Some (calculateApIapRef iap_margin_esc num_sas st2, st2))"

text \<open>
  \<^verbatim>\<open>utils.GridPolygon\<close> is a function of the geo module, which is not among the
  sources: a parameter. \<^verbatim>\<open>Pool(processes=min(cpu_count(), len(protection_points)))\<close>
  raises \<^verbatim>\<open>ValueError\<close> when there is no point.
\<close>

definition performIapForGwpz ::
  "'fad interf \<Rightarrow> (gwpz_entity \<Rightarrow> nat \<Rightarrow> point list) \<Rightarrow> gwpz_entity \<Rightarrow> 'fad \<Rightarrow> 'fad list \<Rightarrow>
   iap_state \<Rightarrow> driver_result" where
  "performIapForGwpz I GridPolygon protected_entity sas_uut_fad_object sas_th_fad_objects st =
     (let iap_threshold_gwpz = Q_GWPZ_DBM_PER_RBW + linearToDb (IAPBW_HZ I / GWPZ_RBW_HZ I);
          iap_margin_gwpz = dbToLinear (iap_threshold_gwpz - MG_GWPZ_DB);
          grant_objects = getGrantObjectsFromFAD I sas_uut_fad_object sas_th_fad_objects;
          num_sas = length sas_th_fad_objects + 1;
          protection_points = GridPolygon protected_entity 2;
          gwpz_low_freq = gwpz_lowFrequency protected_entity;
          gwpz_high_freq = gwpz_highFrequency protected_entity;
          gwpz_region = gwpz_clutter protected_entity;
          protection_channels = getProtectedChannels I gwpz_low_freq gwpz_high_freq;
          st1 = reset_stores st
      in if protection_points = [] then Some (Inl ValueError, st1)
         else
           (case pool_map
                   (\<lambda>p. iapPointConstraint I p protection_channels gwpz_low_freq gwpz_high_freq
                      grant_objects None None (Some gwpz_region) iap_margin_gwpz GWPZ_AREA)
                   protection_points st1 of
              None \<Rightarrow> None
            | Some st2 \<Rightarrow> Some (calculateApIapRef iap_threshold_gwpz num_sas st2, st2)))"

text \<open>
  \<^verbatim>\<open>for pal_record in pal_records\<close> of the PPA driver: the body runs for the first
  record whose \<^verbatim>\<open>palId\<close> equals \<^verbatim>\<open>ppa_pal_ids[0]\<close>, and \<^verbatim>\<open>break\<close> ends the loop. The
  result says whether an exception left the loop, and gives the stores.
\<close>

fun ppa_pal_records ::
  "'fad interf \<Rightarrow> point list \<Rightarrow> string \<Rightarrow> string list \<Rightarrow> grant list \<Rightarrow> real \<Rightarrow>
   pal_record list \<Rightarrow> iap_state \<Rightarrow> (py_error option \<times> iap_state) option" where
  "ppa_pal_records I protection_points ppa_region ppa_pal_ids grant_objects iap_margin_ppa
     [] st = Some (None, st)"
| "ppa_pal_records I protection_points ppa_region ppa_pal_ids grant_objects iap_margin_ppa
     (pal_record # pal_records) st =
     (case ppa_pal_ids of
        [] \<Rightarrow> Some (Some IndexError, st)
      | pal_id # _ \<Rightarrow>
          if palId pal_record = pal_id then
            (let ppa_low_freq = pal_lowFrequency pal_record;
                 ppa_high_freq = pal_highFrequency pal_record;
                 protection_channels = getProtectedChannels I ppa_low_freq ppa_high_freq;
                 st1 = reset_stores st
             in if protection_points = [] then Some (Some ValueError, st1)
                else
                  (case pool_map
                          (\<lambda>p. iapPointConstraint I p protection_channels ppa_low_freq
                             ppa_high_freq grant_objects None None (Some ppa_region)
                             iap_margin_ppa PPA_AREA)
                          protection_points st1 of
                     None \<Rightarrow> None
                   | Some st2 \<Rightarrow> Some (None, st2)))
          else
            ppa_pal_records I protection_points ppa_region ppa_pal_ids grant_objects
              iap_margin_ppa pal_records st)"

definition performIapForPpa ::
  "'fad interf \<Rightarrow> (ppa_entity \<Rightarrow> nat \<Rightarrow> point list) \<Rightarrow> ppa_entity \<Rightarrow> 'fad \<Rightarrow> 'fad list \<Rightarrow>
   pal_record list \<Rightarrow> iap_state \<Rightarrow> driver_result" where
  "performIapForPpa I GridPolygon protected_entity sas_uut_fad_object sas_th_fad_objects
     pal_records st =
     (let iap_threshold_ppa = Q_PPA_DBM_PER_RBW + linearToDb (IAPBW_HZ I / PPA_RBW_HZ I);
          iap_margin_ppa = dbToLinear (iap_threshold_ppa - MG_PPA_DB);
          grant_objects = getGrantObjectsFromFAD I sas_uut_fad_object sas_th_fad_objects;
          num_sas = length sas_th_fad_objects + 1;
          protection_points = GridPolygon protected_entity 2;
          ppa_region = ppaRegionType protected_entity;
          ppa_pal_ids = ppa_palId protected_entity
      in case ppa_pal_records I protection_points ppa_region ppa_pal_ids grant_objects
                iap_margin_ppa pal_records st of
           None \<Rightarrow> None
         | Some (Some e, st') \<Rightarrow> Some (Inl e, st')
         | Some (None, st') \<Rightarrow> Some (calculateApIapRef iap_threshold_ppa num_sas st', st'))"

definition performIapForFssCochannel ::
  "'fad interf \<Rightarrow> fss_entity \<Rightarrow> 'fad \<Rightarrow> 'fad list \<Rightarrow> iap_state \<Rightarrow> driver_result" where
  "performIapForFssCochannel I protected_entity sas_uut_fad_object sas_th_fad_objects st =
     (let iap_threshold_fss_cochannel =
            Q_FSS_CO_CHANNEL_DBM_PER_RBW + linearToDb (IAPBW_HZ I / MHZ I);
          iap_margin_fss_cochannel =
            dbToLinear (iap_threshold_fss_cochannel - MG_FSS_CO_CHANNEL_DB);
          grant_objects = getGrantObjectsFromFAD I sas_uut_fad_object sas_th_fad_objects;
          num_sas = length sas_th_fad_objects + 1;
          protection_point = (fss_ip_latitude protected_entity, fss_ip_longitude protected_entity);
          fss_low_freq = fss_lowFrequency protected_entity;
          fss_info = FssProtectionPoint_of protected_entity;
          protection_channels = getProtectedChannels I fss_low_freq (CBRS_HIGH_FREQ_HZ I);
          st1 = reset_stores st
      in case iapPointConstraint I protection_point protection_channels fss_low_freq
                (CBRS_HIGH_FREQ_HZ I) grant_objects (Some fss_info) None None
                iap_margin_fss_cochannel FSS_CO_CHANNEL st1 of
           None \<Rightarrow> None
         | Some st2 \<Rightarrow> Some (calculateApIapRef iap_margin_fss_cochannel num_sas st2, st2))"

text \<open>
  The FSS blocking driver. When the pass band lies within the TT&C band and
  \<^verbatim>\<open>fss_ttc_flag is False\<close>, the source logs a message and does nothing else in that
  branch; the call of \<^verbatim>\<open>calculateApIapRef\<close> follows the \<^verbatim>\<open>if\<close> statement.
\<close>

definition performIapForFssBlocking ::
  "'fad interf \<Rightarrow> fss_entity \<Rightarrow> 'fad \<Rightarrow> 'fad list \<Rightarrow> iap_state \<Rightarrow> driver_result" where
  "performIapForFssBlocking I protected_entity sas_uut_fad_object sas_th_fad_objects st =
     (let iap_threshold_fss_blocking = Q_FSS_BLOCKING_DBM_PER_RBW;
          iap_margin_fss_blocking = dbToLinear (iap_threshold_fss_blocking - MG_FSS_BLOCKING_DB);
          grant_objects = getGrantObjectsFromFAD I sas_uut_fad_object sas_th_fad_objects;
          num_sas = length sas_th_fad_objects + 1;
          fss_ttc_flag = ttc protected_entity;
          protection_point = (fss_ip_latitude protected_entity, fss_ip_longitude protected_entity);
          fss_low_freq = fss_lowFrequency protected_entity;
          fss_high_freq = fss_highFrequency protected_entity;
          fss_info = FssProtectionPoint_of protected_entity
      in if fss_low_freq \<ge> FSS_TTC_LOW_FREQ_HZ I \<and> fss_high_freq \<le> FSS_TTC_HIGH_FREQ_HZ I \<and>
            fss_ttc_flag = False
         then Some (calculateApIapRef iap_margin_fss_blocking num_sas st, st)
         else
           (let st1 = reset_stores st;
                protection_channels = [(CBRS_LOW_FREQ_HZ I, fss_low_freq)]
            in case iapPointConstraint I protection_point protection_channels
                      (CBRS_LOW_FREQ_HZ I) fss_low_freq grant_objects (Some fss_info) None None
                      iap_margin_fss_blocking FSS_BLOCKING st1 of
                 None \<Rightarrow> None
               | Some st2 \<Rightarrow> Some (calculateApIapRef iap_margin_fss_blocking num_sas st2, st2)))"

subsection \<open>Sequences of allocator calls\<close>

text \<open>The arguments of one call of \<^verbatim>\<open>iapPointConstraint\<close>.\<close>

record 'fad iap_call =
  call_interf :: "'fad interf"
  call_protection_point :: point
  call_channels :: "channel list"
  call_low_freq :: real
  call_high_freq :: real
  call_grant_objects :: "grant list"
  call_fss_info :: "FssProtectionPoint option"
  call_esc_antenna_info :: "EscInformation option"
  call_region_type :: "string option"
  call_threshold :: real
  call_protection_ent_type :: ProtectedEntityType

definition run_call :: "'fad iap_call \<Rightarrow> iap_state \<Rightarrow> iap_state option" where
  "run_call c st =
     iapPointConstraint (call_interf c) (call_protection_point c) (call_channels c)
       (call_low_freq c) (call_high_freq c) (call_grant_objects c) (call_fss_info c)
       (call_esc_antenna_info c) (call_region_type c) (call_threshold c)
       (call_protection_ent_type c) st"

text \<open>The calls of a list, one after the other, starting from stores that were reset.\<close>

fun run_calls :: "'fad iap_call list \<Rightarrow> iap_state \<Rightarrow> iap_state option" where
  "run_calls [] st = Some st"
| "run_calls (c # cs) st =
     (case run_call c st of None \<Rightarrow> None | Some st' \<Rightarrow> run_calls cs st')"

text \<open>The (latitude, longitude) keys of a store.\<close>

definition store_keys :: "lat_dict \<Rightarrow> (real \<times> real) set" where
  "store_keys d = set (concat (map (\<lambda>p. map (\<lambda>q. (fst p, fst q)) (snd p)) d))"

subsection \<open>Invariants used in the proofs\<close>

text \<open>
  While grants are counted as unsatisfied, the remaining quota is positive and the
  fair share is the quota divided by their number.
\<close>

definition quota_inv :: "iap_loop_state \<Rightarrow> bool" where
  "quota_inv s = (0 < num_unsatisfied_grants s \<longrightarrow>
     0 < interference_quota s \<and>
     fair_share s = interference_quota s / real_of_int (num_unsatisfied_grants s))"

text \<open>The \<^verbatim>\<open>for\<close> loop of a sweep over any list of (index, grant) pairs.\<close>

definition probe_all ::
  "(grant \<Rightarrow> real \<Rightarrow> real) \<Rightarrow> (nat \<times> grant) list \<Rightarrow> iap_loop_state \<Rightarrow> iap_loop_state" where
  "probe_all interference ps s =
     fold (\<lambda>(index, grant). probe_grant interference index grant) ps s"

text \<open>
  What every sweep keeps: \<open>quota_inv\<close>, one EIRP and one flag per grant, no flag
  set, and every EIRP a whole number of dB below the maximum EIRP of its grant.
\<close>

definition loop_inv :: "grant list \<Rightarrow> iap_loop_state \<Rightarrow> bool" where
  "loop_inv gs s = (quota_inv s \<and> length (grants_eirp s) = length gs \<and>
     length (grant_initialize_flag s) = length gs \<and>
     list_all (\<lambda>b. \<not> b) (grant_initialize_flag s) \<and>
     list_all2 (\<lambda>e g. \<exists>k::nat. e = max_eirp g - real k) (grants_eirp s) gs)"

text \<open>The keys of a store with the length of each list.\<close>

definition store_shape :: "lat_dict \<Rightarrow> (real \<times> (real \<times> nat) list) list" where
  "store_shape d = map (\<lambda>p. (fst p, map (\<lambda>q. (fst q, length (snd q))) (snd p))) d"

definition shape_append ::
  "real \<Rightarrow> real \<Rightarrow> (real \<times> (real \<times> nat) list) list \<Rightarrow> (real \<times> (real \<times> nat) list) list" where
  "shape_append lat lon sh =
     (let m = (case map_of sh lat of None \<Rightarrow> [] | Some m \<Rightarrow> m);
          n = (case map_of m lon of None \<Rightarrow> 0 | Some n \<Rightarrow> n)
      in AList.update lat (AList.update lon (Suc n) m) sh)"

definition aligned :: "iap_state \<Rightarrow> bool" where
  "aligned st = (store_shape (asas_interference st) = store_shape (aggregate_interference st))"

subsection \<open>Example inputs\<close>

text \<open>
  An instance of the interference module for the examples: the constants are those
  of the CBRS band plan, every grant is in the neighborhood of every point, two
  frequency ranges overlap when they intersect, the received power in dB is the EIRP
  (no path loss and no antenna gain), the channels are the 5 MHz segments of a range,
  and a FAD object is the list of its grants.
\<close>

definition example_interf :: "grant list interf" where
  "example_interf =
     \<lparr>IAPBW_HZ = 5000000, MHZ = 1000000, GWPZ_RBW_HZ = 10000000, PPA_RBW_HZ = 10000000,
      ESC_CH21_CF_HZ = 3652500000, ESC_LOW_FREQ_HZ = 3550000000,
      ESC_HIGH_FREQ_HZ = 3680000000, CBRS_LOW_FREQ_HZ = 3550000000,
      CBRS_HIGH_FREQ_HZ = 3700000000, FSS_TTC_LOW_FREQ_HZ = 3700000000,
      FSS_TTC_HIGH_FREQ_HZ = 4200000000,
      findGrantsInsideNeighborhood = (\<lambda>grants p t. grants),
      findOverlappingGrants = (\<lambda>grants c.
        filter (\<lambda>g. grant_low_frequency g < high_frequency c \<and>
                    low_frequency c < grant_high_frequency g) grants),
      computeInterference = (\<lambda>g eirp c fss esc region. eirp),
      getProtectedChannels = (\<lambda>low high.
        map (\<lambda>k. (low + 5000000 * real k, low + 5000000 * real (Suc k)))
          [0..<nat \<lfloor>(high - low) / 5000000\<rfloor>]),
      getGrantObjectsFromFAD = (\<lambda>uut ths. uut @ concat ths)\<rparr>"

text \<open>A grant on 3550-3560 MHz with a given maximum EIRP.\<close>

definition example_grant :: "real \<Rightarrow> bool \<Rightarrow> grant" where
  "example_grant eirp managed =
     \<lparr>max_eirp = eirp, is_managed_grant = managed, grant_latitude = 0, grant_longitude = 0,
      grant_low_frequency = 3550000000, grant_high_frequency = 3560000000\<rparr>"

text \<open>The linear contribution of a grant under \<open>example_interf\<close>.\<close>

definition eirp_received :: "grant \<Rightarrow> real \<Rightarrow> real" where
  "eirp_received g e = dbToLinear e"

definition two_grants :: "grant list" where
  "two_grants = [example_grant 0 True, example_grant 10 False]"

definition after_first_sweep :: iap_loop_state where
  "after_first_sweep =
     \<lparr>interference_quota = 17 / 2, num_unsatisfied_grants = 1, fair_share = 17 / 2,
      aggr_interference = 1, a_sas_p_interference = 1,
      grant_initialize_flag = [False, False], grants_eirp = [0, 9]\<rparr>"

definition after_second_sweep :: iap_loop_state where
  "after_second_sweep =
     \<lparr>interference_quota = 15 / 2 - 10 powr (9 / 10), num_unsatisfied_grants = - 1,
      fair_share = 10 powr (9 / 10) - 15 / 2,
      aggr_interference = 2 + 10 powr (9 / 10), a_sas_p_interference = 2,
      grant_initialize_flag = [False, False], grants_eirp = [0, 9]\<rparr>"

text \<open>A grant at 0 dBm and a grant at 100 dBm.\<close>

definition far_grants :: "grant list" where
  "far_grants = [example_grant 0 True, example_grant 100 False]"

definition far_after_first_sweep :: iap_loop_state where
  "far_after_first_sweep =
     \<lparr>interference_quota = 17 / 2, num_unsatisfied_grants = 1, fair_share = 17 / 2,
      aggr_interference = 1, a_sas_p_interference = 1,
      grant_initialize_flag = [False, False], grants_eirp = [0, 99]\<rparr>"

definition far_after_second_sweep :: iap_loop_state where
  "far_after_second_sweep =
     \<lparr>interference_quota = 15 / 2, num_unsatisfied_grants = 0, fair_share = 17 / 2,
      aggr_interference = 2, a_sas_p_interference = 2,
      grant_initialize_flag = [False, False], grants_eirp = [0, 98]\<rparr>"

definition managed_and_peer :: "grant list" where
  "managed_and_peer = [example_grant 0 True, example_grant 0 False]"

definition empty_stores :: iap_state where
  "empty_stores = \<lparr>asas_interference = [], aggregate_interference = []\<rparr>"

text \<open>Stores that hold the totals of an earlier run.\<close>

definition stale_stores :: iap_state where
  "stale_stores =
     \<lparr>asas_interference = [(1, [(2, [10])])], aggregate_interference = [(1, [(2, [60])])]\<rparr>"

definition two_longitudes :: iap_state where
  "two_longitudes =
     \<lparr>asas_interference = [(1, [(2, [10]), (3, [10])])],
      aggregate_interference = [(1, [(2, [60]), (3, [60])])]\<rparr>"

definition esc_call :: "grant list \<Rightarrow> channel list \<Rightarrow> grant list iap_call" where
  "esc_call grants channels =
     \<lparr>call_interf = example_interf, call_protection_point = (1, 2),
      call_channels = channels, call_low_freq = 3550000000, call_high_freq = 3680000000,
      call_grant_objects = grants, call_fss_info = None, call_esc_antenna_info = None,
      call_region_type = None, call_threshold = 4, call_protection_ent_type = ESC\<rparr>"

definition after_esc_call :: iap_state where
  "after_esc_call =
     \<lparr>asas_interference = [(1, [(2, [1])])], aggregate_interference = [(1, [(2, [2])])]\<rparr>"

definition example_fss :: fss_entity where
  "example_fss =
     \<lparr>ttc = False, fss_ip_latitude = 5, fss_ip_longitude = 6, fss_ip_height = 10,
      fss_ip_antennaGain = 0, fss_ip_antennaAzimuth = 0, fss_ip_antennaDowntilt = 0,
      fss_lowFrequency = 3700000000, fss_highFrequency = 4200000000\<rparr>"

definition example_ppa :: ppa_entity where
  "example_ppa = \<lparr>ppaRegionType = ''RURAL'', ppa_palId = [''pal_1''], ppa_zone = [(5, 6)]\<rparr>"

definition example_pal_record :: pal_record where
  "example_pal_record =
     \<lparr>palId = ''pal_2'', pal_lowFrequency = 3550000000, pal_highFrequency = 3560000000\<rparr>"

definition example_gwpz :: gwpz_entity where
  "example_gwpz =
     \<lparr>gwpz_lowFrequency = 3550000000, gwpz_highFrequency = 3555000000,
      gwpz_clutter = ''RURAL'', gwpz_zone = [(1, 2)]\<rparr>"

text \<open>The spec's combination scenario: a global total of 60 mW and a local total of 10 mW.\<close>

definition combination_scenario :: iap_state where
  "combination_scenario =
     \<lparr>asas_interference = [(1, [(2, [10])])], aggregate_interference = [(1, [(2, [60])])]\<rparr>"

section \<open>Final combination\<close>

lemma ap_iap_values_Inr:
  assumes "ap_iap_values q_p num_sas asas_info lat lon index a_p_list = Inr vs"
  shows "length vs = length a_p_list \<and>
    (\<forall>i < length a_p_list. 0 < num_sas \<and>
       (\<exists>asas_list. lookup2 asas_info lat lon = Some asas_list \<and>
          index + i < length asas_list \<and>
          vs ! i = (q_p - a_p_list ! i) / real num_sas + asas_list ! (index + i)))"
  using assms
proof (induction a_p_list arbitrary: index vs)
  case Nil
  then show ?case by simp
next
  case (Cons a_p a_p_list)
  from Cons.prems obtain m asas_list vs' where
    n: "num_sas \<noteq> 0" and m: "map_of asas_info lat = Some m"
    and l: "map_of m lon = Some asas_list" and i: "index < length asas_list"
    and r: "ap_iap_values q_p num_sas asas_info lat lon (Suc index) a_p_list = Inr vs'"
    and vs: "vs = ((q_p - a_p) / real num_sas + asas_list ! index) # vs'"
    by (auto split: if_splits option.splits sum.splits)
  from m l have look: "lookup2 asas_info lat lon = Some asas_list"
    by (simp add: lookup2_def)
  from Cons.IH [OF r] have len: "length vs' = length a_p_list"
    and IH: "\<And>i. i < length a_p_list \<Longrightarrow>
        \<exists>asas_list. lookup2 asas_info lat lon = Some asas_list \<and>
          Suc index + i < length asas_list \<and>
          vs' ! i = (q_p - a_p_list ! i) / real num_sas + asas_list ! (Suc index + i)"
    by auto
  show ?case
  proof (intro conjI allI impI)
    show "length vs = length (a_p # a_p_list)" using vs len by simp
  next
    fix i assume "i < length (a_p # a_p_list)"
    show "0 < num_sas" using n by simp
  next
    fix i assume i': "i < length (a_p # a_p_list)"
    show "\<exists>asas_list. lookup2 asas_info lat lon = Some asas_list \<and>
        index + i < length asas_list \<and>
        vs ! i = (q_p - (a_p # a_p_list) ! i) / real num_sas + asas_list ! (index + i)"
    proof (cases i)
      case 0
      with look i vs show ?thesis by simp
    next
      case (Suc j)
      with i' have "j < length a_p_list" by simp
      from IH [OF this] Suc vs show ?thesis by simp
    qed
  qed
qed

text \<open>
  An entry of the result is an entry that was there before the loop over the
  longitudes, or it was computed from one of the longitudes of this latitude.
\<close>

lemma ap_iap_longitudes_lookup:
  assumes "ap_iap_longitudes q_p num_sas asas_info lat a_p_ch ap_iap_ref = Inr ap_iap_ref'"
    and "lookup2 ap_iap_ref' lat' lon' = Some vs"
  shows "lookup2 ap_iap_ref lat' lon' = Some vs \<or>
    (lat' = lat \<and> (\<exists>a_p_list. (lon', a_p_list) \<in> set a_p_ch \<and>
       ap_iap_values q_p num_sas asas_info lat lon' 0 a_p_list = Inr vs))"
  using assms
proof (induction a_p_ch arbitrary: ap_iap_ref)
  case Nil
  then show ?case by simp
next
  case (Cons p a_p_ch)
  obtain lon a_p_list where p: "p = (lon, a_p_list)" by (cases p)
  from Cons.prems(1) p obtain vs0 where
    v: "ap_iap_values q_p num_sas asas_info lat lon 0 a_p_list = Inr vs0"
    and r: "ap_iap_longitudes q_p num_sas asas_info lat a_p_ch
              (AList.update lat [(lon, vs0)] ap_iap_ref) = Inr ap_iap_ref'"
    by (auto split: sum.splits)
  from Cons.IH [OF r Cons.prems(2)]
  consider (old) "lookup2 (AList.update lat [(lon, vs0)] ap_iap_ref) lat' lon' = Some vs"
    | (new) "lat' = lat" "\<exists>a_p_list. (lon', a_p_list) \<in> set a_p_ch \<and>
       ap_iap_values q_p num_sas asas_info lat lon' 0 a_p_list = Inr vs"
    by blast
  then show ?case
  proof cases
    case old
    show ?thesis
    proof (cases "lat' = lat")
      case True
      with old have "lon' = lon \<and> vs = vs0"
        by (auto simp: lookup2_def update_conv' split: if_splits)
      with True v p show ?thesis by auto
    next
      case False
      with old show ?thesis by (simp add: lookup2_def update_conv')
    qed
  next
    case new
    then show ?thesis by auto
  qed
qed

lemma ap_iap_latitudes_lookup:
  assumes "ap_iap_latitudes q_p num_sas asas_info a_p_info ap_iap_ref = Inr ap_iap_ref'"
    and "lookup2 ap_iap_ref' lat lon = Some vs"
  shows "lookup2 ap_iap_ref lat lon = Some vs \<or>
    (\<exists>a_p_ch a_p_list. (lat, a_p_ch) \<in> set a_p_info \<and> (lon, a_p_list) \<in> set a_p_ch \<and>
       ap_iap_values q_p num_sas asas_info lat lon 0 a_p_list = Inr vs)"
  using assms
proof (induction a_p_info arbitrary: ap_iap_ref)
  case Nil
  then show ?case by simp
next
  case (Cons p a_p_info)
  obtain lat0 a_p_ch where p: "p = (lat0, a_p_ch)" by (cases p)
  from Cons.prems(1) p obtain ref1 where
    l: "ap_iap_longitudes q_p num_sas asas_info lat0 a_p_ch ap_iap_ref = Inr ref1"
    and r: "ap_iap_latitudes q_p num_sas asas_info a_p_info ref1 = Inr ap_iap_ref'"
    by (auto split: sum.splits)
  from Cons.IH [OF r Cons.prems(2)] ap_iap_longitudes_lookup [OF l] p
  show ?case by fastforce
qed

lemma is_dict_lookup2:
  assumes "is_dict d" "(lat, m) \<in> set d" "(lon, xs) \<in> set m"
  shows "lookup2 d lat lon = Some xs"
proof -
  from assms(1,2) have "map_of d lat = Some m" "distinct (map fst m)"
    by (auto simp: is_dict_def list_all_iff)
  with assms(3) show ?thesis by (simp add: lookup2_def)
qed

lemma calculateApIapRef_keys:
  assumes "calculateApIapRef q_p num_sas st = Inr ap_iap_ref"
    and "lookup2 ap_iap_ref lat lon = Some vs"
  shows "(lat, lon) \<in> store_keys (aggregate_interference st)"
proof -
  from assms(1) have "ap_iap_latitudes q_p num_sas (asas_interference st)
      (aggregate_interference st) [] = Inr ap_iap_ref"
    by (simp add: calculateApIapRef_def)
  from ap_iap_latitudes_lookup [OF this assms(2)]
  obtain a_p_ch a_p_list where
    "(lat, a_p_ch) \<in> set (aggregate_interference st)" "(lon, a_p_list) \<in> set a_p_ch"
    by (auto simp: lookup2_def)
  then show ?thesis by (force simp: store_keys_def)
qed

lemma calculateApIapRef_empty:
  "aggregate_interference st = [] \<Longrightarrow> calculateApIapRef q_p num_sas st = Inr []"
  by (simp add: calculateApIapRef_def)

text \<open>
  Claim C1. Every value of the result of \<open>calculateApIapRef\<close> is
  \<open>(q_p - global total) / num_sas + local total\<close>, with the totals that the two stores
  hold at the same latitude, longitude and index. The global-total store is a
  dictionary, so its keys are distinct. A result with a value also shows that
  \<open>num_sas\<close> is not zero.
\<close>

theorem calculateApIapRef_value:
  assumes "is_dict (aggregate_interference st)"
    and "calculateApIapRef q_p num_sas st = Inr ap_iap_ref"
    and "lookup2 ap_iap_ref lat lon = Some vs"
    and "index < length vs"
  shows "\<exists>a_p_list asas_list.
    lookup2 (aggregate_interference st) lat lon = Some a_p_list \<and>
    lookup2 (asas_interference st) lat lon = Some asas_list \<and>
    index < length a_p_list \<and> index < length asas_list \<and> 0 < num_sas \<and>
    vs ! index = (q_p - a_p_list ! index) / real num_sas + asas_list ! index"
proof -
  from assms(2) have "ap_iap_latitudes q_p num_sas (asas_interference st)
      (aggregate_interference st) [] = Inr ap_iap_ref"
    by (simp add: calculateApIapRef_def)
  from ap_iap_latitudes_lookup [OF this assms(3)]
  obtain a_p_ch a_p_list where
    a: "(lat, a_p_ch) \<in> set (aggregate_interference st)" and b: "(lon, a_p_list) \<in> set a_p_ch"
    and v: "ap_iap_values q_p num_sas (asas_interference st) lat lon 0 a_p_list = Inr vs"
    by (auto simp: lookup2_def)
  from is_dict_lookup2 [OF assms(1) a b]
  have look: "lookup2 (aggregate_interference st) lat lon = Some a_p_list" .
  from ap_iap_values_Inr [OF v] assms(4) have len: "index < length a_p_list" by simp
  with ap_iap_values_Inr [OF v] look show ?thesis by auto
qed

text \<open>
  The scenario of the spec: threshold 100 mW, two authorities, global total 60 mW and
  local total 10 mW give 30 mW.
\<close>

theorem calculateApIapRef_value_witness:
  "calculateApIapRef 100 2 combination_scenario = Inr [(1, [(2, [30])])] \<and>
   (\<exists>a_p_list asas_list.
    lookup2 (aggregate_interference combination_scenario) 1 2 = Some a_p_list \<and>
    lookup2 (asas_interference combination_scenario) 1 2 = Some asas_list \<and>
    0 < length a_p_list \<and> 0 < length asas_list \<and> 0 < (2::nat) \<and>
    [30::real] ! 0 = (100 - a_p_list ! 0) / real (2::nat) + asas_list ! 0)"
proof -
  have d: "is_dict (aggregate_interference combination_scenario)"
    by (simp add: is_dict_def combination_scenario_def)
  have c: "calculateApIapRef 100 2 combination_scenario = Inr [(1, [(2, [30])])]"
    by (simp add: calculateApIapRef_def combination_scenario_def)
  have l: "lookup2 [(1, [(2, [30])])] 1 2 = Some [30]" by (simp add: lookup2_def)
  have i: "(0::nat) < length [30::real]" by simp
  from calculateApIapRef_value [OF d c l i] c show ?thesis by simp
qed

text \<open>
  Claim C2. \<open>calculateApIapRef\<close> does not give one entry per key of the global-total
  store: with the longitudes 2 and 3 at latitude 1, the result holds longitude 3 only,
  because the body of the loop over the longitudes replaces the dictionary of the
  latitude.
\<close>

theorem calculateApIapRef_drops_longitude:
  "calculateApIapRef 100 2 two_longitudes = Inr [(1, [(3, [30])])] \<and>
   lookup2 (aggregate_interference two_longitudes) 1 2 = Some [60] \<and>
   lookup2 [(1, [(3, [30::real])])] 1 2 = None"
  by (simp add: calculateApIapRef_def two_longitudes_def lookup2_def)

section \<open>The convergence loop\<close>

subsection \<open>One grant, one sweep\<close>

lemma probe_all_Nil [simp]: "probe_all f [] s = s"
  by (simp add: probe_all_def)

lemma probe_all_Cons [simp]: "probe_all f ((i, g) # ps) s = probe_all f ps (probe_grant f i g s)"
  by (simp add: probe_all_def)

lemma sweep_probe_all: "sweep f gs = probe_all f (enumerate 0 gs)"
  by (simp add: sweep_def probe_all_def fun_eq_iff)

lemma probe_grant_count_le:
  "num_unsatisfied_grants (probe_grant f i g s) \<le> num_unsatisfied_grants s"
  by (simp add: probe_grant_def Let_def)

lemma probe_grant_flag [simp]:
  "grant_initialize_flag (probe_grant f i g s) = grant_initialize_flag s"
  by (simp add: probe_grant_def Let_def)

lemma probe_grant_length [simp]:
  "length (grants_eirp (probe_grant f i g s)) = length (grants_eirp s)"
  by (simp add: probe_grant_def Let_def)

lemma probe_grant_quota_inv:
  assumes "quota_inv s"
  shows "quota_inv (probe_grant f i g s)"
proof (cases "\<not> grant_initialize_flag s ! i \<and> f g (grants_eirp s ! i) < fair_share s")
  case False
  with assms show ?thesis by (auto simp: probe_grant_def Let_def quota_inv_def)
next
  case True
  show ?thesis
  proof (cases "1 < num_unsatisfied_grants s")
    case False
    with True show ?thesis by (simp add: probe_grant_def Let_def quota_inv_def)
  next
    case n: True
    with assms have q: "0 < interference_quota s"
      and fs: "fair_share s = interference_quota s / real_of_int (num_unsatisfied_grants s)"
      by (auto simp: quota_inv_def)
    from n have "interference_quota s / real_of_int (num_unsatisfied_grants s) \<le> interference_quota s / 1"
      using q by (intro divide_left_mono) auto
    with True fs have "f g (grants_eirp s ! i) < interference_quota s" by simp
    with True n show ?thesis by (simp add: probe_grant_def Let_def quota_inv_def)
  qed
qed

lemma probe_grant_same_count:
  assumes "num_unsatisfied_grants (probe_grant f i g s) = num_unsatisfied_grants s"
  shows "fair_share (probe_grant f i g s) = fair_share s"
    and "interference_quota (probe_grant f i g s) = interference_quota s"
    and "\<not> grant_initialize_flag s ! i \<Longrightarrow> \<not> f g (grants_eirp s ! i) < fair_share s"
    and "\<not> grant_initialize_flag s ! i \<Longrightarrow> i < length (grants_eirp s) \<Longrightarrow>
           grants_eirp (probe_grant f i g s) ! i = grants_eirp s ! i - 1"
  using assms by (auto simp: probe_grant_def Let_def split: if_splits)

lemma probe_grant_other:
  "j \<noteq> i \<Longrightarrow> grants_eirp (probe_grant f i g s) ! j = grants_eirp s ! j"
  by (simp add: probe_grant_def Let_def)

lemma probe_grant_step:
  "j < length (grants_eirp s) \<Longrightarrow>
   grants_eirp (probe_grant f i g s) ! j = grants_eirp s ! j \<or>
   grants_eirp (probe_grant f i g s) ! j = grants_eirp s ! j - 1"
  by (cases "j = i") (simp_all add: probe_grant_def Let_def)

lemma probe_all_count_le:
  "num_unsatisfied_grants (probe_all f ps s) \<le> num_unsatisfied_grants s"
proof (induction ps arbitrary: s)
  case Nil
  show ?case by simp
next
  case (Cons p ps)
  obtain i g where p: "p = (i, g)" by (cases p)
  have "num_unsatisfied_grants (probe_all f ps (probe_grant f i g s))
          \<le> num_unsatisfied_grants (probe_grant f i g s)" by (rule Cons.IH)
  also have "\<dots> \<le> num_unsatisfied_grants s" by (rule probe_grant_count_le)
  finally show ?case using p by simp
qed

lemma probe_all_flag [simp]:
  "grant_initialize_flag (probe_all f ps s) = grant_initialize_flag s"
  by (induction ps arbitrary: s) auto

lemma probe_all_length [simp]:
  "length (grants_eirp (probe_all f ps s)) = length (grants_eirp s)"
  by (induction ps arbitrary: s) auto

lemma probe_all_quota_inv:
  "quota_inv s \<Longrightarrow> quota_inv (probe_all f ps s)"
  by (induction ps arbitrary: s) (auto simp: probe_grant_quota_inv)

lemma probe_all_same_count:
  assumes "num_unsatisfied_grants (probe_all f ps s) = num_unsatisfied_grants s"
  shows "fair_share (probe_all f ps s) = fair_share s"
  using assms
proof (induction ps arbitrary: s)
  case Nil
  show ?case by simp
next
  case (Cons p ps)
  obtain i g where p: "p = (i, g)" by (cases p)
  let ?s = "probe_grant f i g s"
  have 1: "num_unsatisfied_grants (probe_all f ps ?s) \<le> num_unsatisfied_grants ?s"
    by (rule probe_all_count_le)
  have 2: "num_unsatisfied_grants ?s \<le> num_unsatisfied_grants s"
    by (rule probe_grant_count_le)
  from Cons.prems p have 3: "num_unsatisfied_grants (probe_all f ps ?s) = num_unsatisfied_grants s"
    by simp
  from 1 2 3 have a: "num_unsatisfied_grants ?s = num_unsatisfied_grants s"
    and b: "num_unsatisfied_grants (probe_all f ps ?s) = num_unsatisfied_grants ?s" by auto
  from Cons.IH [OF b] probe_grant_same_count(1) [OF a] p show ?case by simp
qed

lemma probe_all_other:
  "j \<notin> fst ` set ps \<Longrightarrow> grants_eirp (probe_all f ps s) ! j = grants_eirp s ! j"
  by (induction ps arbitrary: s) (auto simp: probe_grant_other)

lemma probe_all_steps:
  "j < length (grants_eirp s) \<Longrightarrow>
   \<exists>k::nat. grants_eirp (probe_all f ps s) ! j = grants_eirp s ! j - real k"
proof (induction ps arbitrary: s)
  case Nil
  show ?case by (auto intro: exI [of _ 0])
next
  case (Cons p ps)
  obtain i g where p: "p = (i, g)" by (cases p)
  let ?s = "probe_grant f i g s"
  from Cons.prems have "j < length (grants_eirp ?s)" by simp
  from Cons.IH [OF this] obtain k :: nat where
    k: "grants_eirp (probe_all f ps ?s) ! j = grants_eirp ?s ! j - real k" by blast
  from probe_grant_step [OF Cons.prems, of f i g] show ?case
  proof
    assume "grants_eirp ?s ! j = grants_eirp s ! j"
    with k p show ?thesis by auto
  next
    assume "grants_eirp ?s ! j = grants_eirp s ! j - 1"
    with k p have "grants_eirp (probe_all f (p # ps) s) ! j = grants_eirp s ! j - real (Suc k)"
      by simp
    then show ?thesis by blast
  qed
qed

text \<open>A sweep that satisfies no grant lowers the first EIRP and keeps the fair share.\<close>

lemma sweep_same_count:
  assumes "num_unsatisfied_grants (sweep f (g0 # gs) s) = num_unsatisfied_grants s"
    and "\<not> grant_initialize_flag s ! 0" and "0 < length (grants_eirp s)"
  shows "fair_share (sweep f (g0 # gs) s) = fair_share s"
    and "\<not> f g0 (grants_eirp s ! 0) < fair_share s"
    and "grants_eirp (sweep f (g0 # gs) s) ! 0 = grants_eirp s ! 0 - 1"
proof -
  let ?s = "probe_grant f 0 g0 s"
  have sw: "sweep f (g0 # gs) s = probe_all f (enumerate 1 gs) ?s"
    by (simp add: sweep_probe_all)
  have 1: "num_unsatisfied_grants (probe_all f (enumerate 1 gs) ?s) \<le> num_unsatisfied_grants ?s"
    by (rule probe_all_count_le)
  have 2: "num_unsatisfied_grants ?s \<le> num_unsatisfied_grants s"
    by (rule probe_grant_count_le)
  from 1 2 assms(1) sw have a: "num_unsatisfied_grants ?s = num_unsatisfied_grants s"
    and b: "num_unsatisfied_grants (probe_all f (enumerate 1 gs) ?s) = num_unsatisfied_grants ?s"
    by auto
  from probe_all_same_count [OF b] probe_grant_same_count(1) [OF a] sw
  show "fair_share (sweep f (g0 # gs) s) = fair_share s" by simp
  from probe_grant_same_count(3) [OF a assms(2)]
  show "\<not> f g0 (grants_eirp s ! 0) < fair_share s" .
  have "0 \<notin> fst ` set (enumerate 1 gs)" by (auto simp: in_set_enumerate_eq)
  from probe_all_other [OF this] probe_grant_same_count(4) [OF a assms(2,3)] sw
  show "grants_eirp (sweep f (g0 # gs) s) ! 0 = grants_eirp s ! 0 - 1" by simp
qed

subsection \<open>The loop invariant and termination\<close>

lemma loop_inv_initial:
  assumes "gs \<noteq> []" "0 < quota"
  shows "loop_inv gs (initial_loop_state gs quota)"
proof -
  have "list_all2 (\<lambda>e g. \<exists>k::nat. e = max_eirp g - real k) (map max_eirp gs) gs"
    by (auto simp: list_all2_conv_all_nth intro: exI [of _ 0])
  with assms show ?thesis
    by (simp add: loop_inv_def initial_loop_state_def quota_inv_def list_all_iff)
qed

lemma loop_inv_sweep:
  assumes "loop_inv gs s"
  shows "loop_inv gs (sweep f gs' s)"
proof -
  let ?t = "sweep f gs' s"
  from assms have len: "length (grants_eirp s) = length gs"
    and steps: "list_all2 (\<lambda>e g. \<exists>k::nat. e = max_eirp g - real k) (grants_eirp s) gs"
    by (auto simp: loop_inv_def)
  have "list_all2 (\<lambda>e g. \<exists>k::nat. e = max_eirp g - real k) (grants_eirp ?t) gs"
    unfolding list_all2_conv_all_nth
  proof (intro conjI allI impI)
    show "length (grants_eirp ?t) = length gs" using len by (simp add: sweep_probe_all)
  next
    fix j assume "j < length (grants_eirp ?t)"
    then have j: "j < length (grants_eirp s)" by (simp add: sweep_probe_all)
    from probe_all_steps [OF j, of f "enumerate 0 gs'"] obtain k :: nat where
      k: "grants_eirp ?t ! j = grants_eirp s ! j - real k" by (auto simp: sweep_probe_all)
    from steps j obtain k' :: nat where "grants_eirp s ! j = max_eirp (gs ! j) - real k'"
      by (auto simp: list_all2_conv_all_nth)
    with k have "grants_eirp ?t ! j = max_eirp (gs ! j) - real (k' + k)" by simp
    then show "\<exists>k::nat. grants_eirp ?t ! j = max_eirp (gs ! j) - real k" by blast
  qed
  with assms show ?thesis
    by (simp add: loop_inv_def sweep_probe_all probe_all_quota_inv)
qed

text \<open>Lowering the EIRP far enough brings a decreasing contribution under any positive bound.\<close>

lemma reaches_bound:
  fixes h :: "real \<Rightarrow> real"
  assumes mono: "\<forall>e1 e2. e1 < e2 \<longrightarrow> h e1 < h e2" and small: "\<forall>b>0. \<exists>e. h e < b"
    and b: "0 < b"
  shows "\<exists>k::nat. h (e0 - real k) < b"
proof -
  from small b obtain e where e: "h e < b" by blast
  define k where "k = nat \<lceil>e0 - e\<rceil>"
  have "e0 - real k \<le> e" unfolding k_def by linarith
  then have "h (e0 - real k) \<le> h e" using mono by (cases "e0 - real k = e") (auto simp: less_le)
  with e have "h (e0 - real k) < b" by simp
  then show ?thesis ..
qed

lemma least_step:
  fixes P :: "nat \<Rightarrow> bool"
  assumes "\<exists>k. P k" "\<not> P 0"
  shows "(LEAST k. P (Suc k)) < (LEAST k. P k)"
proof -
  from assms(1) obtain k where "P k" ..
  from Least_Suc [of P, OF this assms(2)] show ?thesis by simp
qed

text \<open>
  Termination. With at least one overlapping grant and a positive quota, and with
  contributions that decrease strictly with the EIRP and fall below every positive
  bound, the convergence loop returns. When it does, no grant is counted as
  unsatisfied, and every candidate EIRP is a whole number of 1 dB steps below the
  maximum EIRP of its grant. The count reaching zero does not say that every grant
  was accepted: a later subsection has a run that ends with a grant never accepted.
\<close>


theorem convergence_loop_terminates:
  assumes grants: "neighborhood_grants \<noteq> []" and quota: "0 < quota"
    and decreasing: "\<forall>g \<in> set neighborhood_grants.
      (\<forall>e1 e2. e1 < e2 \<longrightarrow> interference g e1 < interference g e2) \<and>
      (\<forall>b>0. \<exists>e. interference g e < b)"
  shows "\<exists>s. convergence_loop interference neighborhood_grants quota = Some s \<and>
    num_unsatisfied_grants s \<le> 0 \<and>
    (\<forall>j < length neighborhood_grants.
       \<exists>k::nat. grants_eirp s ! j = max_eirp (neighborhood_grants ! j) - real k)"
proof -
  from grants obtain g0 gs where gs: "neighborhood_grants = g0 # gs"
    by (cases neighborhood_grants) auto
  let ?b = "\<lambda>s. 0 < num_unsatisfied_grants s"
  let ?c = "sweep interference neighborhood_grants"
  let ?P = "loop_inv neighborhood_grants"
  let ?m = "\<lambda>s. (nat (num_unsatisfied_grants s),
                  LEAST k::nat. interference g0 (grants_eirp s ! 0 - real k) < fair_share s)"
  from decreasing gs have mono: "\<forall>e1 e2. e1 < e2 \<longrightarrow> interference g0 e1 < interference g0 e2"
    and small: "\<forall>b>0. \<exists>e. interference g0 e < b" by auto
  have "{(t, s). (?P s \<and> ?b s) \<and> t = ?c s} \<subseteq> inv_image (less_than <*lex*> less_than) ?m"
  proof (clarify)
    fix s assume P: "?P s" and b: "?b s"
    let ?t = "?c s"
    have le: "num_unsatisfied_grants ?t \<le> num_unsatisfied_grants s"
      by (simp add: sweep_probe_all probe_all_count_le)
    show "(?t, s) \<in> inv_image (less_than <*lex*> less_than) ?m"
    proof (cases "num_unsatisfied_grants ?t = num_unsatisfied_grants s")
      case False
      with le b have "nat (num_unsatisfied_grants ?t) < nat (num_unsatisfied_grants s)" by simp
      then show ?thesis by simp
    next
      case True
      from P gs have f0: "\<not> grant_initialize_flag s ! 0" and l0: "0 < length (grants_eirp s)"
        by (auto simp: loop_inv_def list_all_length)
      from P b have fs: "0 < fair_share s" by (auto simp: loop_inv_def quota_inv_def)
      note same = sweep_same_count [OF True [unfolded gs] f0 l0, folded gs]
      let ?Q = "\<lambda>k::nat. interference g0 (grants_eirp s ! 0 - real k) < fair_share s"
      from reaches_bound [OF mono small fs] have ex: "\<exists>k. ?Q k" .
      from same(2) have n0: "\<not> ?Q 0" by simp
      have "(LEAST k. ?Q (Suc k)) < (LEAST k. ?Q k)" by (rule least_step [OF ex n0])
      moreover have "(LEAST k::nat. interference g0 (grants_eirp ?t ! 0 - real k) < fair_share ?t)
          = (LEAST k. ?Q (Suc k))"
      proof -
        have eq: "\<And>k::nat. grants_eirp ?t ! 0 - real k = grants_eirp s ! 0 - real (Suc k)"
          using same(3) by simp
        show ?thesis by (simp only: same(1) eq)
      qed
      ultimately show ?thesis using True by simp
    qed
  qed
  then have wf: "wf {(t, s). (?P s \<and> ?b s) \<and> t = ?c s}"
    by (rule wf_subset [rotated]) (simp add: wf_lex_prod)
  have step: "\<And>s. ?P s \<Longrightarrow> ?b s \<Longrightarrow> ?P (?c s)" by (rule loop_inv_sweep)
  have init: "?P (initial_loop_state neighborhood_grants quota)"
    by (rule loop_inv_initial [OF grants quota])
  from wf_while_option_Some [of ?P ?b ?c, OF wf step init] obtain s where
    s: "while_option ?b ?c (initial_loop_state neighborhood_grants quota) = Some s" by blast
  from while_option_stop [OF s] have stop: "num_unsatisfied_grants s \<le> 0" by simp
  from while_option_rule [where P = ?P, OF step s init] have "?P s" .
  then have "\<forall>j < length neighborhood_grants.
       \<exists>k::nat. grants_eirp s ! j = max_eirp (neighborhood_grants ! j) - real k"
    by (auto simp: loop_inv_def list_all2_conv_all_nth)
  with s stop show ?thesis by (auto simp: convergence_loop_def)
qed

subsection \<open>Decibels and linear units\<close>

lemma linearToDb_dbToLinear [simp]: "linearToDb (dbToLinear x) = x"
  by (simp add: linearToDb_def dbToLinear_def)

lemma dbToLinear_linearToDb: "0 < x \<Longrightarrow> dbToLinear (linearToDb x) = x"
  by (simp add: linearToDb_def dbToLinear_def)

lemma dbToLinear_less_iff [simp]: "dbToLinear x < dbToLinear y \<longleftrightarrow> x < y"
  by (simp add: dbToLinear_def)

lemma dbToLinear_eq_iff [simp]: "dbToLinear x = dbToLinear y \<longleftrightarrow> x = y"
  by (simp add: dbToLinear_def powr_inj)

lemma dbToLinear_pos [simp]: "0 < dbToLinear x"
  by (simp add: dbToLinear_def)

lemma dbToLinear_0 [simp]: "dbToLinear 0 = 1"
  by (simp add: dbToLinear_def)

lemma dbToLinear_decreasing:
  "(\<forall>e1 e2. e1 < e2 \<longrightarrow> dbToLinear e1 < dbToLinear e2) \<and> (\<forall>b>0. \<exists>e. dbToLinear e < b)"
proof (intro conjI allI impI)
  fix e1 e2 :: real assume "e1 < e2"
  then show "dbToLinear e1 < dbToLinear e2" by simp
next
  fix b :: real assume "0 < b"
  then have "dbToLinear (linearToDb (b / 2)) < b" by (simp add: dbToLinear_linearToDb)
  then show "\<exists>e. dbToLinear e < b" ..
qed

lemma linearToDb_half: "- 10 < linearToDb (1 / 2)" "linearToDb (1 / 2) < 0"
proof -
  have "log 10 (1 / 2) = - log 10 (2::real)" by (simp add: log_divide)
  moreover have "log 10 (2::real) < log 10 10" by (subst log_less_cancel_iff) simp_all
  moreover have "0 < log 10 (2::real)" by simp
  ultimately show "- 10 < linearToDb (1 / 2)" "linearToDb (1 / 2) < 0"
    by (simp_all add: linearToDb_def)
qed

text \<open>The contribution of a grant that is 1 dB below 10 dBm: between 7.5 and 8.5 mW.\<close>

lemma ten_powr_nine_tenths:
  "15 / 2 < (10::real) powr (9 / 10)" "(10::real) powr (9 / 10) < 17 / 2"
proof -
  have "((10::real) powr (9 / 10)) ^ 10 = (10 powr (9 / 10)) powr (real (10::nat))"
    by (subst powr_realpow) simp_all
  also have "\<dots> = 10 powr 9" by (simp add: powr_powr)
  also have "\<dots> = 10 ^ 9" using powr_realpow [of "10::real" 9] by simp
  finally have p: "((10::real) powr (9 / 10)) ^ 10 = 10 ^ 9" .
  have "(15 / 2 :: real) ^ 10 < (10 powr (9 / 10)) ^ 10"
    unfolding p by (simp add: power_divide)
  then show "15 / 2 < (10::real) powr (9 / 10)"
    by (rule power_less_imp_less_base) simp
  have "((10::real) powr (9 / 10)) ^ 10 < (17 / 2) ^ 10"
    unfolding p by (simp add: power_divide)
  then show "(10::real) powr (9 / 10) < 17 / 2"
    by (rule power_less_imp_less_base) simp
qed

lemma eirp_received_example_interf:
  "(\<lambda>grant eirp. dbToLinear (computeInterference example_interf grant eirp
      channel_constraint fss_info esc_antenna_info region_type)) = eirp_received"
  by (simp add: example_interf_def eirp_received_def fun_eq_iff)

text \<open>
  A run of the loop under these hypotheses: two grants at 0 dBm and 10 dBm, a quota of
  9.5 mW.
\<close>

theorem convergence_loop_terminates_witness:
  "\<exists>s. convergence_loop eirp_received two_grants (19 / 2) = Some s \<and>
     num_unsatisfied_grants s \<le> 0 \<and>
     (\<exists>k::nat. grants_eirp s ! 0 = max_eirp (two_grants ! 0) - real k) \<and>
     (\<exists>k::nat. grants_eirp s ! 1 = max_eirp (two_grants ! 1) - real k)"
proof -
  have 1: "two_grants \<noteq> []" by (simp add: two_grants_def)
  have 2: "(0::real) < 19 / 2" by simp
  have 3: "\<forall>g \<in> set two_grants.
      (\<forall>e1 e2. e1 < e2 \<longrightarrow> eirp_received g e1 < eirp_received g e2) \<and>
      (\<forall>b>0. \<exists>e. eirp_received g e < b)"
    using dbToLinear_decreasing by (simp add: eirp_received_def)
  from convergence_loop_terminates [OF 1 2 3] obtain s where
    s: "convergence_loop eirp_received two_grants (19 / 2) = Some s"
    "num_unsatisfied_grants s \<le> 0"
    "\<forall>j < length two_grants.
       \<exists>k::nat. grants_eirp s ! j = max_eirp (two_grants ! j) - real k"
    by blast
  have "(0::nat) < length two_grants" "(1::nat) < length two_grants"
    by (simp_all add: two_grants_def)
  with s(3) have "\<exists>k::nat. grants_eirp s ! 0 = max_eirp (two_grants ! 0) - real k"
    "\<exists>k::nat. grants_eirp s ! 1 = max_eirp (two_grants ! 1) - real k"
    by blast+
  with s(1,2) show ?thesis by blast
qed

subsection \<open>Conservation of the quota\<close>

lemma probe_grant_conservation:
  "aggr_interference (probe_grant f i g s) + interference_quota (probe_grant f i g s) =
   aggr_interference s + interference_quota s"
  by (simp add: probe_grant_def Let_def)

lemma probe_all_conservation:
  "aggr_interference (probe_all f ps s) + interference_quota (probe_all f ps s) =
   aggr_interference s + interference_quota s"
  by (induction ps arbitrary: s) (auto simp: probe_grant_conservation)

text \<open>
  What the loop adds to the global total, it takes from the quota: the total at the
  end is the initial quota less the remaining quota.
\<close>

lemma convergence_loop_conservation:
  assumes "convergence_loop interference neighborhood_grants quota = Some s"
  shows "aggr_interference s = quota - interference_quota s"
proof -
  let ?P = "\<lambda>s::iap_loop_state. aggr_interference s + interference_quota s = quota"
  have "?P s"
  proof (rule while_option_rule [where P = ?P, OF _ assms [unfolded convergence_loop_def]])
    show "?P (initial_loop_state neighborhood_grants quota)"
      by (simp add: initial_loop_state_def)
  next
    fix s :: iap_loop_state assume "?P s"
    then show "?P (sweep interference neighborhood_grants s)"
      by (simp add: sweep_probe_all probe_all_conservation)
  qed
  then show ?thesis by simp
qed

lemma first_sweep:
  "sweep eirp_received two_grants (initial_loop_state two_grants (19 / 2)) = after_first_sweep"
  by (simp add: sweep_def initial_loop_state_def probe_grant_def eirp_received_def
      dbToLinear_def example_grant_def two_grants_def after_first_sweep_def Let_def)

lemma second_sweep:
  "sweep eirp_received two_grants after_first_sweep = after_second_sweep"
  using ten_powr_nine_tenths
  by (simp add: sweep_def probe_grant_def eirp_received_def dbToLinear_def example_grant_def
      two_grants_def after_first_sweep_def after_second_sweep_def Let_def)

text \<open>
  Claim C7. The remaining quota does not stay nonnegative. Two grants at 0 dBm and
  10 dBm share a quota of 9.5 mW. The first sweep satisfies the first grant (1 mW) and
  lowers the second to 9 dBm. The flag of the first grant is still \<open>False\<close>, so the
  second sweep subtracts its 1 mW again and the count reaches 0; the second grant is
  then compared with the fair share 8.5 mW of the sweep before and subtracts
  \<open>10 powr 0.9\<close> mW from the 7.5 mW that are left. The loop ends with a negative
  quota, a count of -1 and a global total above the initial quota.
\<close>

theorem convergence_loop_overdraws_quota:
  "convergence_loop eirp_received two_grants (19 / 2) = Some after_second_sweep \<and>
   interference_quota after_second_sweep < 0 \<and>
   19 / 2 < aggr_interference after_second_sweep"
proof -
  have 0: "0 < num_unsatisfied_grants (initial_loop_state two_grants (19 / 2))"
    by (simp add: initial_loop_state_def two_grants_def)
  have 1: "0 < num_unsatisfied_grants after_first_sweep"
    by (simp add: after_first_sweep_def)
  have 2: "\<not> 0 < num_unsatisfied_grants after_second_sweep"
    by (simp add: after_second_sweep_def)
  have "convergence_loop eirp_received two_grants (19 / 2) =
      while_option (\<lambda>s. 0 < num_unsatisfied_grants s) (sweep eirp_received two_grants)
        after_first_sweep"
    unfolding convergence_loop_def by (subst while_option_unfold) (simp add: 0 first_sweep)
  also have "\<dots> = while_option (\<lambda>s. 0 < num_unsatisfied_grants s)
        (sweep eirp_received two_grants) after_second_sweep"
    by (subst while_option_unfold) (simp add: 1 second_sweep)
  also have "\<dots> = Some after_second_sweep"
    by (subst while_option_unfold) (simp add: 2)
  finally show ?thesis
    using ten_powr_nine_tenths by (simp add: after_second_sweep_def)
qed

subsection \<open>A grant that is never accepted\<close>

lemma ten_powr_large: "1 \<le> x \<Longrightarrow> \<not> (10::real) powr x < 17 / 2"
proof -
  assume "1 \<le> x"
  then have "(10::real) powr 1 \<le> 10 powr x" by (intro powr_mono) simp_all
  then show ?thesis by simp
qed

lemma far_first_sweep:
  "sweep eirp_received far_grants (initial_loop_state far_grants (19 / 2)) =
     far_after_first_sweep"
  using ten_powr_large [of 10]
  by (simp add: sweep_def initial_loop_state_def probe_grant_def eirp_received_def
      dbToLinear_def example_grant_def far_grants_def far_after_first_sweep_def Let_def)

lemma far_second_sweep:
  "sweep eirp_received far_grants far_after_first_sweep = far_after_second_sweep"
  using ten_powr_large [of "99 / 10"]
  by (simp add: sweep_def probe_grant_def eirp_received_def dbToLinear_def example_grant_def
      far_grants_def far_after_first_sweep_def far_after_second_sweep_def Let_def)

text \<open>
  Claim C8. The loop ends, but not every grant is driven down until its contribution
  fits within its fair share. Two grants at 0 dBm and 100 dBm share a quota of
  9.5 mW, and the contribution of a grant decreases strictly with its EIRP. The first
  sweep accepts the first grant and lowers the second to 99 dBm. The flag of the
  first grant is still \<open>False\<close>, so the second sweep accepts it again and the count
  reaches 0; the second grant is lowered to 98 dBm and the loop ends. The second grant
  was never accepted: its contribution at 98 dBm is not below the fair share, and the
  global total is twice the contribution of the first grant.
\<close>

theorem convergence_loop_leaves_grant_unsatisfied:
  "convergence_loop eirp_received far_grants (19 / 2) = Some far_after_second_sweep \<and>
   grants_eirp far_after_second_sweep ! 1 = 98 \<and>
   \<not> eirp_received (far_grants ! 1) 98 < fair_share far_after_second_sweep \<and>
   aggr_interference far_after_second_sweep = 2 * eirp_received (far_grants ! 0) 0"
proof -
  have 0: "0 < num_unsatisfied_grants (initial_loop_state far_grants (19 / 2))"
    by (simp add: initial_loop_state_def far_grants_def)
  have 1: "0 < num_unsatisfied_grants far_after_first_sweep"
    by (simp add: far_after_first_sweep_def)
  have 2: "\<not> 0 < num_unsatisfied_grants far_after_second_sweep"
    by (simp add: far_after_second_sweep_def)
  have "convergence_loop eirp_received far_grants (19 / 2) =
      while_option (\<lambda>s. 0 < num_unsatisfied_grants s) (sweep eirp_received far_grants)
        far_after_first_sweep"
    unfolding convergence_loop_def by (subst while_option_unfold) (simp add: 0 far_first_sweep)
  also have "\<dots> = while_option (\<lambda>s. 0 < num_unsatisfied_grants s)
        (sweep eirp_received far_grants) far_after_second_sweep"
    by (subst while_option_unfold) (simp add: 1 far_second_sweep)
  also have "\<dots> = Some far_after_second_sweep"
    by (subst while_option_unfold) (simp add: 2)
  finally show ?thesis
    using ten_powr_large [of "98 / 10"]
    by (simp add: far_after_second_sweep_def eirp_received_def dbToLinear_def)
qed

subsection \<open>A single grant\<close>

text \<open>
  A single grant whose contribution at its maximum EIRP is below the quota is
  satisfied in the first sweep; what is left of the quota is not given to it.
\<close>

lemma convergence_loop_single:
  assumes "interference g (max_eirp g) < quota"
  shows "convergence_loop interference [g] quota =
    Some \<lparr>interference_quota = quota - interference g (max_eirp g),
          num_unsatisfied_grants = 0,
          fair_share = quota,
          aggr_interference = interference g (max_eirp g),
          a_sas_p_interference = (if is_managed_grant g then interference g (max_eirp g) else 0),
          grant_initialize_flag = [False],
          grants_eirp = [max_eirp g]\<rparr>"
proof -
  let ?b = "\<lambda>s. 0 < num_unsatisfied_grants s"
  let ?s0 = "initial_loop_state [g] quota"
  let ?s1 = "sweep interference [g] ?s0"
  have 0: "?b ?s0" by (simp add: initial_loop_state_def)
  have 1: "?s1 = \<lparr>interference_quota = quota - interference g (max_eirp g),
          num_unsatisfied_grants = 0,
          fair_share = quota,
          aggr_interference = interference g (max_eirp g),
          a_sas_p_interference = (if is_managed_grant g then interference g (max_eirp g) else 0),
          grant_initialize_flag = [False],
          grants_eirp = [max_eirp g]\<rparr>"
    using assms by (simp add: sweep_def initial_loop_state_def probe_grant_def Let_def)
  then have 2: "\<not> ?b ?s1" by simp
  have "convergence_loop interference [g] quota = while_option ?b (sweep interference [g]) ?s1"
    unfolding convergence_loop_def by (subst while_option_unfold) (simp add: 0)
  also have "\<dots> = Some ?s1"
    by (subst while_option_unfold) (simp only: 2 if_False)
  finally show ?thesis unfolding 1 .
qed

section \<open>The point and channel allocator\<close>

subsection \<open>The interference quota of a channel\<close>

text \<open>
  The guard of the roll-off, \<^verbatim>\<open>channel[0] >= 3650.e6\<close>, reads the lower edge of the
  channel. The channels of an ESC are the 5 MHz segments of the pass band
  3550-3680 MHz: on a 5 MHz channel the guard holds exactly when the center is at or
  above 3652.5 MHz, and on the segments that start at 3550 MHz exactly when the center
  is above 3650 MHz.
\<close>

lemma esc_rolloff_5mhz:
  assumes "snd channel = fst channel + 5000000"
  shows "channel_interference_quota I ESC threshold channel =
     (if 3652500000 \<le> (fst channel + snd channel) / 2
      then dbToLinear (linearToDb threshold -
             (2.5 + ((fst channel + snd channel) / 2 - ESC_CH21_CF_HZ I) / MHZ I))
      else threshold)"
  using assms by (simp add: channel_interference_quota_def Let_def)

lemma raster_cutoff:
  "3650000000 \<le> 3550000000 + 5000000 * real k \<longleftrightarrow>
   3650000000 < ((3550000000 + 5000000 * real k) + (3550000000 + 5000000 * real (Suc k))) / 2"
proof (cases "20 \<le> k")
  case True
  then have "20 \<le> real k" by simp
  then show ?thesis by simp
next
  case False
  then have "k \<le> 19" by simp
  then have "real k \<le> 19" by (metis of_nat_le_iff of_nat_numeral)
  then show ?thesis by simp
qed

text \<open>
  Claim C6. For an ESC sensor and every 5 MHz channel of its pass band, the quota of
  the channel is the base threshold lowered, in dB and before the conversion to linear
  units, by 2.5 plus the distance in MHz of the channel's center from the reference
  center \<open>ESC_CH21_CF_HZ\<close>, exactly when the center of the channel lies above the
  cutoff of 3650 MHz; otherwise it is the base threshold. With a reference center that
  is not below the cutoff, a channel centered 10 MHz above it has its quota lowered by
  12.5 dB.
\<close>

theorem esc_rolloff_quota:
  assumes raster: "channel = (3550000000 + 5000000 * real k, 3550000000 + 5000000 * real (Suc k))"
  shows "channel_interference_quota I ESC threshold channel =
     (if 3650000000 < (fst channel + snd channel) / 2
      then dbToLinear (linearToDb threshold -
             (2.5 + ((fst channel + snd channel) / 2 - ESC_CH21_CF_HZ I) / MHZ I))
      else threshold) \<and>
    (3650000000 \<le> ESC_CH21_CF_HZ I \<and> 0 < MHZ I \<and>
      (fst channel + snd channel) / 2 = ESC_CH21_CF_HZ I + 10 * MHZ I \<longrightarrow>
        channel_interference_quota I ESC threshold channel =
          dbToLinear (linearToDb threshold - 12.5) \<and>
        linearToDb (channel_interference_quota I ESC threshold channel) =
          linearToDb threshold - 12.5)"
proof (rule conjI)
  have guard: "3650000000 \<le> fst channel \<longleftrightarrow> 3650000000 < (fst channel + snd channel) / 2"
    unfolding raster fst_conv snd_conv by (rule raster_cutoff)
  show q: "channel_interference_quota I ESC threshold channel =
     (if 3650000000 < (fst channel + snd channel) / 2
      then dbToLinear (linearToDb threshold -
             (2.5 + ((fst channel + snd channel) / 2 - ESC_CH21_CF_HZ I) / MHZ I))
      else threshold)"
    unfolding guard [symmetric] by (simp add: channel_interference_quota_def Let_def)
  show "3650000000 \<le> ESC_CH21_CF_HZ I \<and> 0 < MHZ I \<and>
      (fst channel + snd channel) / 2 = ESC_CH21_CF_HZ I + 10 * MHZ I \<longrightarrow>
        channel_interference_quota I ESC threshold channel =
          dbToLinear (linearToDb threshold - 12.5) \<and>
        linearToDb (channel_interference_quota I ESC threshold channel) =
          linearToDb threshold - 12.5"
  proof (intro impI)
    assume a: "3650000000 \<le> ESC_CH21_CF_HZ I \<and> 0 < MHZ I \<and>
      (fst channel + snd channel) / 2 = ESC_CH21_CF_HZ I + 10 * MHZ I"
    then have m: "0 < MHZ I" and cf: "3650000000 \<le> ESC_CH21_CF_HZ I"
      and c: "(fst channel + snd channel) / 2 = ESC_CH21_CF_HZ I + 10 * MHZ I" by blast+
    from m cf have above: "3650000000 < (fst channel + snd channel) / 2" unfolding c by simp
    have "((fst channel + snd channel) / 2 - ESC_CH21_CF_HZ I) / MHZ I = 10"
      unfolding c using m by simp
    with above have v: "channel_interference_quota I ESC threshold channel =
        dbToLinear (linearToDb threshold - 12.5)"
      unfolding q by simp
    show "channel_interference_quota I ESC threshold channel =
          dbToLinear (linearToDb threshold - 12.5) \<and>
        linearToDb (channel_interference_quota I ESC threshold channel) =
          linearToDb threshold - 12.5"
      unfolding v by simp
  qed
qed

text \<open>
  The channels 3660-3665 MHz (centered 10 MHz above the reference center),
  3650-3655 MHz (the first one above the cutoff) and 3645-3650 MHz (the last one
  below it).
\<close>

theorem esc_rolloff_quota_witness:
  "channel_interference_quota example_interf ESC 1 (3660000000, 3665000000) =
     dbToLinear (- 12.5) \<and>
   channel_interference_quota example_interf ESC 1 (3650000000, 3655000000) =
     dbToLinear (- 2.5) \<and>
   channel_interference_quota example_interf ESC 1 (3645000000, 3650000000) = 1"
proof -
  have r22: "(3660000000 :: real, 3665000000 :: real) =
      (3550000000 + 5000000 * real (22::nat), 3550000000 + 5000000 * real (Suc 22))" by simp
  have r20: "(3650000000 :: real, 3655000000 :: real) =
      (3550000000 + 5000000 * real (20::nat), 3550000000 + 5000000 * real (Suc 20))" by simp
  have r19: "(3645000000 :: real, 3650000000 :: real) =
      (3550000000 + 5000000 * real (19::nat), 3550000000 + 5000000 * real (Suc 19))" by simp
  have p: "3650000000 \<le> ESC_CH21_CF_HZ example_interf \<and> 0 < MHZ example_interf \<and>
      (fst (3660000000 :: real, 3665000000 :: real) + snd (3660000000 :: real, 3665000000 :: real)) / 2 =
        ESC_CH21_CF_HZ example_interf + 10 * MHZ example_interf"
    by (simp add: example_interf_def)
  from esc_rolloff_quota [OF r22, of example_interf 1, THEN conjunct2] p
  have "channel_interference_quota example_interf ESC 1 (3660000000, 3665000000) =
     dbToLinear (linearToDb 1 - 12.5)" by blast
  then have 1: "channel_interference_quota example_interf ESC 1 (3660000000, 3665000000) =
     dbToLinear (- 12.5)" by (simp add: linearToDb_def)
  from esc_rolloff_quota [OF r20, of example_interf 1, THEN conjunct1]
  have 2: "channel_interference_quota example_interf ESC 1 (3650000000, 3655000000) =
     dbToLinear (- 2.5)" by (simp add: linearToDb_def example_interf_def)
  from esc_rolloff_quota [OF r19, of example_interf 1, THEN conjunct1]
  have 3: "channel_interference_quota example_interf ESC 1 (3645000000, 3650000000) = 1"
    by simp
  from 1 2 3 show ?thesis by blast
qed


subsection \<open>The shape of the two stores\<close>

lemma map_of_map_snd:
  "map_of (map (\<lambda>p. (fst p, f (snd p))) xs) k = map_option f (map_of xs k)"
  by (induction xs) auto

lemma map_update_snd:
  "map (\<lambda>p. (fst p, f (snd p))) (AList.update k v xs) =
   AList.update k (f v) (map (\<lambda>p. (fst p, f (snd p))) xs)"
  by (induction xs) auto

lemma store_shape_Set:
  "store_shape (SetAggregateInterferenceInfo lat lon v d) = shape_append lat lon (store_shape d)"
proof -
  let ?f = "\<lambda>m. map (\<lambda>q. (fst q, length (snd q))) m"
  let ?m = "case map_of d lat of None \<Rightarrow> [] | Some m \<Rightarrow> m"
  let ?xs = "case map_of ?m lon of None \<Rightarrow> [] | Some xs \<Rightarrow> xs"
  have 1: "(case map_of (store_shape d) lat of None \<Rightarrow> [] | Some m \<Rightarrow> m) = ?f ?m"
    unfolding store_shape_def by (simp add: map_of_map_snd split: option.split)
  have 2: "(case map_of (?f ?m) lon of None \<Rightarrow> 0 | Some n \<Rightarrow> n) = length ?xs"
    by (simp add: map_of_map_snd split: option.split)
  have "store_shape (SetAggregateInterferenceInfo lat lon v d) =
      AList.update lat (?f (AList.update lon (?xs @ [v]) ?m)) (store_shape d)"
    unfolding store_shape_def SetAggregateInterferenceInfo_def Let_def
    by (rule map_update_snd)
  also have "?f (AList.update lon (?xs @ [v]) ?m) = AList.update lon (Suc (length ?xs)) (?f ?m)"
    using map_update_snd [of length lon "?xs @ [v]" ?m] by simp
  finally show ?thesis
    unfolding shape_append_def Let_def 1 2 .
qed

lemma store_keys_shape:
  "store_keys d = set (concat (map (\<lambda>p. map (\<lambda>q. (fst p, fst q)) (snd p)) (store_shape d)))"
  by (simp add: store_keys_def store_shape_def comp_def)

lemma lookup2_shape:
  "map_option length (lookup2 d lat lon) =
   (case map_of (store_shape d) lat of None \<Rightarrow> None | Some m \<Rightarrow> map_of m lon)"
  by (simp add: lookup2_def store_shape_def map_of_map_snd split: option.split)

lemma aligned_reset: "aligned (reset_stores st)"
  by (simp add: aligned_def reset_stores_def)

lemma iap_channels_aligned:
  assumes "iap_channels I protection_point low_freq high_freq grants_inside fss_info
     esc_antenna_info region_type threshold protection_ent_type channels st = Some st'"
    and "aligned st"
  shows "aligned st'"
  using assms
proof (induction channels arbitrary: st)
  case Nil
  then show ?case by simp
next
  case (Cons channel channels)
  let ?c = "channel_constraint_of protection_point protection_ent_type low_freq high_freq channel"
  let ?gs = "findOverlappingGrants I grants_inside ?c"
  show ?case
  proof (cases "?gs = []")
    case True
    with Cons.prems(1) have "iap_channels I protection_point low_freq high_freq grants_inside
        fss_info esc_antenna_info region_type threshold protection_ent_type channels st = Some st'"
      by (simp add: Let_def)
    from Cons.IH [OF this Cons.prems(2)] show ?thesis .
  next
    case False
    let ?loop = "convergence_loop
        (\<lambda>grant eirp. dbToLinear (computeInterference I grant eirp ?c fss_info
           esc_antenna_info region_type))
        ?gs (channel_interference_quota I protection_ent_type threshold channel)"
    from False Cons.prems(1) obtain s where s: "?loop = Some s"
      by (cases ?loop) (simp_all add: Let_def)
    with False Cons.prems(1) have
      r: "iap_channels I protection_point low_freq high_freq grants_inside
        fss_info esc_antenna_info region_type threshold protection_ent_type channels
        (st\<lparr>asas_interference :=
              SetAggregateInterferenceInfo (latitude ?c) (longitude ?c) (a_sas_p_interference s)
                (asas_interference st),
            aggregate_interference :=
              SetAggregateInterferenceInfo (latitude ?c) (longitude ?c) (aggr_interference s)
                (aggregate_interference st)\<rparr>) = Some st'"
      by (simp add: Let_def)
    from Cons.prems(2) have "aligned (st\<lparr>asas_interference :=
              SetAggregateInterferenceInfo (latitude ?c) (longitude ?c) (a_sas_p_interference s)
                (asas_interference st),
            aggregate_interference :=
              SetAggregateInterferenceInfo (latitude ?c) (longitude ?c) (aggr_interference s)
                (aggregate_interference st)\<rparr>)"
      by (simp add: aligned_def store_shape_Set)
    from Cons.IH [OF r this] show ?thesis .
  qed
qed

lemma iapPointConstraint_aligned:
  assumes "iapPointConstraint I protection_point channels low_freq high_freq grant_objects
     fss_info esc_antenna_info region_type threshold protection_ent_type st = Some st'"
    and "aligned st"
  shows "aligned st'"
  using assms
  by (auto simp: iapPointConstraint_def Let_def split: if_splits dest: iap_channels_aligned)

lemma run_calls_aligned:
  "run_calls calls st = Some st' \<Longrightarrow> aligned st \<Longrightarrow> aligned st'"
proof (induction calls arbitrary: st)
  case Nil
  then show ?case by simp
next
  case (Cons c calls)
  from Cons.prems(1) obtain st1 where 1: "run_call c st = Some st1"
    and 2: "run_calls calls st1 = Some st'"
    by (auto split: option.splits)
  from 1 Cons.prems(2) have "aligned st1"
    unfolding run_call_def by (rule iapPointConstraint_aligned)
  from Cons.IH [OF 2 this] show ?case .
qed

lemma update_list_all:
  "list_all P al \<Longrightarrow> P (k, v) \<Longrightarrow> list_all P (AList.update k v al)"
  by (induction al) auto

lemma is_dict_Set:
  assumes "is_dict d"
  shows "is_dict (SetAggregateInterferenceInfo lat lon v d)"
proof -
  let ?m = "case map_of d lat of None \<Rightarrow> [] | Some m \<Rightarrow> m"
  from assms have "distinct (map fst ?m)"
    by (auto simp: is_dict_def list_all_iff split: option.split dest: map_of_SomeD)
  then have "distinct (map fst (AList.update lon v' ?m))" for v'
    by (rule distinct_update)
  with assms show ?thesis
    unfolding is_dict_def SetAggregateInterferenceInfo_def Let_def
    by (auto intro!: distinct_update update_list_all)
qed

lemma iap_channels_is_dict:
  assumes "iap_channels I protection_point low_freq high_freq grants_inside fss_info
     esc_antenna_info region_type threshold protection_ent_type channels st = Some st'"
    and "is_dict (aggregate_interference st)"
  shows "is_dict (aggregate_interference st')"
  using assms
proof (induction channels arbitrary: st)
  case Nil
  then show ?case by simp
next
  case (Cons channel channels)
  let ?c = "channel_constraint_of protection_point protection_ent_type low_freq high_freq channel"
  let ?gs = "findOverlappingGrants I grants_inside ?c"
  show ?case
  proof (cases "?gs = []")
    case True
    with Cons.prems(1) have "iap_channels I protection_point low_freq high_freq grants_inside
        fss_info esc_antenna_info region_type threshold protection_ent_type channels st = Some st'"
      by (simp add: Let_def)
    from Cons.IH [OF this Cons.prems(2)] show ?thesis .
  next
    case False
    let ?loop = "convergence_loop
        (\<lambda>grant eirp. dbToLinear (computeInterference I grant eirp ?c fss_info
           esc_antenna_info region_type))
        ?gs (channel_interference_quota I protection_ent_type threshold channel)"
    let ?st = "\<lambda>s. st\<lparr>asas_interference :=
              SetAggregateInterferenceInfo (latitude ?c) (longitude ?c) (a_sas_p_interference s)
                (asas_interference st),
            aggregate_interference :=
              SetAggregateInterferenceInfo (latitude ?c) (longitude ?c) (aggr_interference s)
                (aggregate_interference st)\<rparr>"
    from False Cons.prems(1) obtain s where s: "?loop = Some s"
      by (cases ?loop) (simp_all add: Let_def)
    with False Cons.prems(1) have
      r: "iap_channels I protection_point low_freq high_freq grants_inside
        fss_info esc_antenna_info region_type threshold protection_ent_type channels
        (?st s) = Some st'"
      by (simp add: Let_def)
    from Cons.prems(2) have "is_dict (aggregate_interference (?st s))"
      by (simp add: is_dict_Set)
    from Cons.IH [OF r this] show ?thesis .
  qed
qed

text \<open>The stores of a run are dictionaries: no key is written twice.\<close>

lemma run_calls_is_dict:
  "run_calls calls st = Some st' \<Longrightarrow> is_dict (aggregate_interference st) \<Longrightarrow>
   is_dict (aggregate_interference st')"
proof (induction calls arbitrary: st)
  case Nil
  then show ?case by simp
next
  case (Cons c calls)
  from Cons.prems(1) obtain st1 where 1: "run_call c st = Some st1"
    and 2: "run_calls calls st1 = Some st'"
    by (auto split: option.splits)
  from 1 Cons.prems(2) have "is_dict (aggregate_interference st1)"
    by (auto simp: run_call_def iapPointConstraint_def Let_def split: if_splits
        dest: iap_channels_is_dict)
  from Cons.IH [OF 2 this] show ?case .
qed

lemma run_calls_reset_is_dict:
  assumes "run_calls calls (reset_stores st0) = Some st"
  shows "is_dict (aggregate_interference st)"
  by (rule run_calls_is_dict [OF assms]) (simp add: reset_stores_def is_dict_def)

lemma managed_and_peer_loop:
  "convergence_loop (\<lambda>grant eirp. dbToLinear eirp) managed_and_peer 4 =
    Some \<lparr>interference_quota = 2, num_unsatisfied_grants = 0, fair_share = 3,
          aggr_interference = 2, a_sas_p_interference = 1,
          grant_initialize_flag = [False, False], grants_eirp = [0, 0]\<rparr>"
proof -
  let ?f = "\<lambda>(grant::grant) eirp. dbToLinear eirp"
  let ?b = "\<lambda>s. 0 < num_unsatisfied_grants s"
  let ?s0 = "initial_loop_state managed_and_peer 4"
  have 0: "?b ?s0" by (simp add: initial_loop_state_def managed_and_peer_def)
  have 1: "sweep ?f managed_and_peer ?s0 =
      \<lparr>interference_quota = 2, num_unsatisfied_grants = 0, fair_share = 3,
       aggr_interference = 2, a_sas_p_interference = 1,
       grant_initialize_flag = [False, False], grants_eirp = [0, 0]\<rparr>"
    by (simp add: sweep_def initial_loop_state_def probe_grant_def Let_def
        managed_and_peer_def example_grant_def)
  have "convergence_loop ?f managed_and_peer 4 =
      while_option ?b (sweep ?f managed_and_peer) (sweep ?f managed_and_peer ?s0)"
    unfolding convergence_loop_def by (subst while_option_unfold) (simp add: 0)
  also have "\<dots> = Some (sweep ?f managed_and_peer ?s0)"
    by (subst while_option_unfold) (simp add: 1)
  finally show ?thesis unfolding 1 .
qed

lemma esc_call_run:
  "run_calls [esc_call managed_and_peer [(3600000000, 3605000000), (3550000000, 3555000000)]]
     (reset_stores stale_stores) = Some after_esc_call"
proof -
  have g: "filter (\<lambda>g. grant_low_frequency g < 3605000000 \<and> 3600000000 < grant_high_frequency g)
      managed_and_peer = []"
    "filter (\<lambda>g. grant_low_frequency g < 3555000000 \<and> 3550000000 < grant_high_frequency g)
      managed_and_peer = managed_and_peer"
    "managed_and_peer \<noteq> []"
    by (simp_all add: managed_and_peer_def example_grant_def)
  show ?thesis
    using managed_and_peer_loop
    by (simp add: run_call_def esc_call_def iapPointConstraint_def Let_def
        example_interf_def channel_interference_quota_def g
        channel_constraint_of_def constraint_channel_def reset_stores_def stale_stores_def
        SetAggregateInterferenceInfo_def after_esc_call_def)
qed

text \<open>
  Claim C9. After any sequence of calls of \<open>iapPointConstraint\<close> that starts from
  stores that were reset, the two stores have the same (latitude, longitude) keys,
  and at every key their lists have the same length.
\<close>

theorem stores_key_aligned:
  assumes "run_calls calls (reset_stores st0) = Some st"
  shows "store_keys (asas_interference st) = store_keys (aggregate_interference st) \<and>
    (\<forall>lat lon. map_option length (lookup2 (asas_interference st) lat lon) =
       map_option length (lookup2 (aggregate_interference st) lat lon))"
proof -
  from run_calls_aligned [OF assms aligned_reset]
  have "store_shape (asas_interference st) = store_shape (aggregate_interference st)"
    by (simp add: aligned_def)
  then show ?thesis by (simp add: store_keys_shape lookup2_shape)
qed

text \<open>
  A call for an ESC point with two channels, of which the second overlaps a managed
  and a peer grant: the local total is 1 mW and the global total 2 mW, at the same key.
\<close>

theorem stores_key_aligned_witness:
  "run_calls [esc_call managed_and_peer [(3600000000, 3605000000), (3550000000, 3555000000)]]
     (reset_stores stale_stores) = Some after_esc_call \<and>
   store_keys (asas_interference after_esc_call) = {(1, 2)} \<and>
   store_keys (aggregate_interference after_esc_call) = {(1, 2)} \<and>
   map_option length (lookup2 (asas_interference after_esc_call) 1 2) = Some 1 \<and>
   map_option length (lookup2 (aggregate_interference after_esc_call) 1 2) = Some 1"
proof -
  from stores_key_aligned [OF esc_call_run]
  have "store_keys (asas_interference after_esc_call) =
      store_keys (aggregate_interference after_esc_call)"
    and "map_option length (lookup2 (asas_interference after_esc_call) 1 2) =
      map_option length (lookup2 (aggregate_interference after_esc_call) 1 2)"
    by blast+
  moreover have "store_keys (aggregate_interference after_esc_call) = {(1, 2)}"
    "map_option length (lookup2 (aggregate_interference after_esc_call) 1 2) = Some 1"
    by (simp_all add: after_esc_call_def store_keys_def lookup2_def)
  ultimately show ?thesis using esc_call_run by simp
qed

subsection \<open>Channels and points without grants\<close>

text \<open>
  Claim C10. A channel that no grant of the neighborhood overlaps changes nothing: the
  run goes on with the next channel from the same stores. When no grant is in the
  neighborhood of the point, the run returns the stores as they were; a point that was
  not a key of the global-total store is then not a key of the result of
  \<open>calculateApIapRef\<close>.
\<close>

theorem empty_neighborhood_skipped:
  "(findOverlappingGrants I
      (findGrantsInsideNeighborhood I grant_objects protection_point protection_ent_type)
      (channel_constraint_of protection_point protection_ent_type low_freq high_freq channel) = []
    \<longrightarrow> iapPointConstraint I protection_point (channel # channels) low_freq high_freq
          grant_objects fss_info esc_antenna_info region_type threshold protection_ent_type st =
        iapPointConstraint I protection_point channels low_freq high_freq
          grant_objects fss_info esc_antenna_info region_type threshold protection_ent_type st) \<and>
   (findGrantsInsideNeighborhood I grant_objects protection_point protection_ent_type = []
    \<longrightarrow> iapPointConstraint I protection_point channels low_freq high_freq
          grant_objects fss_info esc_antenna_info region_type threshold protection_ent_type st =
        Some st \<and>
        (\<forall>q_p num_sas ap_iap_ref.
           protection_point \<notin> store_keys (aggregate_interference st) \<longrightarrow>
           calculateApIapRef q_p num_sas st = Inr ap_iap_ref \<longrightarrow>
           lookup2 ap_iap_ref (fst protection_point) (snd protection_point) = None))"
proof (intro conjI impI allI)
  assume "findOverlappingGrants I
      (findGrantsInsideNeighborhood I grant_objects protection_point protection_ent_type)
      (channel_constraint_of protection_point protection_ent_type low_freq high_freq channel) = []"
  then show "iapPointConstraint I protection_point (channel # channels) low_freq high_freq
          grant_objects fss_info esc_antenna_info region_type threshold protection_ent_type st =
        iapPointConstraint I protection_point channels low_freq high_freq
          grant_objects fss_info esc_antenna_info region_type threshold protection_ent_type st"
    by (simp add: iapPointConstraint_def Let_def)
next
  assume "findGrantsInsideNeighborhood I grant_objects protection_point protection_ent_type = []"
  then show "iapPointConstraint I protection_point channels low_freq high_freq
          grant_objects fss_info esc_antenna_info region_type threshold protection_ent_type st =
        Some st"
    by (simp add: iapPointConstraint_def)
next
  fix q_p num_sas ap_iap_ref
  assume absent: "protection_point \<notin> store_keys (aggregate_interference st)"
    and calc: "calculateApIapRef q_p num_sas st = Inr ap_iap_ref"
  show "lookup2 ap_iap_ref (fst protection_point) (snd protection_point) = None"
  proof (cases "lookup2 ap_iap_ref (fst protection_point) (snd protection_point)")
    case None
    then show ?thesis .
  next
    case (Some vs)
    from calculateApIapRef_keys [OF calc Some] absent show ?thesis by simp
  qed
qed

theorem empty_neighborhood_skipped_witness:
  "iapPointConstraint example_interf (1, 2) [(3600000000, 3605000000), (3550000000, 3555000000)]
     3550000000 3680000000 managed_and_peer None None None 4 ESC empty_stores =
   iapPointConstraint example_interf (1, 2) [(3550000000, 3555000000)]
     3550000000 3680000000 managed_and_peer None None None 4 ESC empty_stores \<and>
   iapPointConstraint example_interf (1, 2) [(3550000000, 3555000000)]
     3550000000 3680000000 [] None None None 4 ESC empty_stores = Some empty_stores \<and>
   calculateApIapRef 100 2 empty_stores = Inr [] \<and>
   lookup2 [] 1 2 = None"
proof -
  have 1: "findOverlappingGrants example_interf
      (findGrantsInsideNeighborhood example_interf managed_and_peer (1, 2) ESC)
      (channel_constraint_of (1, 2) ESC 3550000000 3680000000 (3600000000, 3605000000)) = []"
    by (simp add: example_interf_def channel_constraint_of_def constraint_channel_def
        managed_and_peer_def example_grant_def)
  have 2: "findGrantsInsideNeighborhood example_interf [] (1, 2) ESC = []"
    by (simp add: example_interf_def)
  have 3: "(1, 2) \<notin> store_keys (aggregate_interference empty_stores)"
    by (simp add: store_keys_def empty_stores_def)
  have 4: "calculateApIapRef 100 2 empty_stores = Inr []"
    by (simp add: calculateApIapRef_def empty_stores_def)
  note a = empty_neighborhood_skipped [of example_interf managed_and_peer "(1, 2)" ESC
      3550000000 3680000000 "(3600000000, 3605000000)" "[(3550000000, 3555000000)]"
      None None None 4 empty_stores, THEN conjunct1, rule_format, OF 1]
  note b = empty_neighborhood_skipped [of example_interf "[]" "(1, 2)" ESC
      3550000000 3680000000 "(3600000000, 3605000000)" "[(3550000000, 3555000000)]"
      None None None 4 empty_stores, THEN conjunct2, rule_format, OF 2]
  from b have b1: "iapPointConstraint example_interf (1, 2) [(3550000000, 3555000000)]
     3550000000 3680000000 [] None None None 4 ESC empty_stores = Some empty_stores"
    by (rule conjunct1)
  from b have "lookup2 [] (fst (1::real, 2::real)) (snd (1::real, 2::real)) = None"
    using 3 4 by blast
  with a b1 4 show ?thesis by simp
qed

section \<open>Entity drivers\<close>

text \<open>
  Claim C3. For an FSS blocking entity whose pass band lies within the TT&C band and
  whose TT&C flag is \<open>False\<close>, the driver does not return without a result. The
  branch only logs a message; the stores are not reset, and \<open>calculateApIapRef\<close> is
  called on them after the \<^verbatim>\<open>if\<close> statement. On stores that hold the totals of an
  earlier run at the point (1, 2), the FSS at (5, 6) is given the entry of that point.
  After a reset, which every other path performs before the call, the result would be
  empty.
\<close>

theorem performIapForFssBlocking_exempt_returns_result:
  "performIapForFssBlocking example_interf example_fss [] [] stale_stores =
     Some (Inr [(1, [(2, [dbToLinear (- 61) - 50])])], stale_stores) \<and>
   calculateApIapRef (dbToLinear (- 61)) 1 (reset_stores stale_stores) = Inr []"
  by (simp add: performIapForFssBlocking_def Let_def example_interf_def example_fss_def
      stale_stores_def calculateApIapRef_def Q_FSS_BLOCKING_DBM_PER_RBW_def
      MG_FSS_BLOCKING_DB_def reset_stores_def)

text \<open>
  Claim C4. For a PPA whose PAL identifier is the identifier of no record of
  \<open>pal_records\<close>, the driver does not return without a result. The loop over the
  records runs no body; the stores are not reset, and \<open>calculateApIapRef\<close> is called
  on them after the loop. On stores that hold the totals of an earlier run at the
  point (1, 2), the PPA with the grid point (5, 6) is given the entry of that point.
  After a reset, which the matching path performs, the result would be empty.
\<close>

theorem performIapForPpa_unmatched_returns_result:
  "performIapForPpa example_interf (\<lambda>e n. ppa_zone e) example_ppa [] []
     [example_pal_record] stale_stores =
   Some (Inr [(1, [(2, [linearToDb (1 / 2) - 130])])], stale_stores) \<and>
   calculateApIapRef (linearToDb (1 / 2) - 80) 1 (reset_stores stale_stores) = Inr []"
  by (simp add: performIapForPpa_def Let_def example_ppa_def example_pal_record_def
      stale_stores_def calculateApIapRef_def example_interf_def Q_PPA_DBM_PER_RBW_def
      reset_stores_def)


text \<open>
  Claim C5. The GWPZ driver calls \<open>calculateApIapRef\<close> with \<open>iap_threshold_gwpz\<close>, a
  quantity in dB, and not with \<open>iap_margin_gwpz\<close>, the threshold in mW that it gives
  to \<open>iapPointConstraint\<close> (the PPA driver does the same with \<open>iap_threshold_ppa\<close>).
  For one point, one channel and one managed grant at -100 dBm the returned value is
  \<open>10 \<cdot> log10 (1/2) - 80\<close>, a negative number, where the threshold in mW is
  positive.
\<close>

theorem performIapForGwpz_passes_dB_threshold:
  "performIapForGwpz example_interf (\<lambda>e n. gwpz_zone e) example_gwpz
     [example_grant (- 100) True] [] empty_stores =
   Some (Inr [(1, [(2, [linearToDb (1 / 2) - 80])])],
         \<lparr>asas_interference = [(1, [(2, [dbToLinear (- 100)])])],
          aggregate_interference = [(1, [(2, [dbToLinear (- 100)])])]\<rparr>) \<and>
   linearToDb (1 / 2) - 80 < 0 \<and>
   0 < dbToLinear (Q_GWPZ_DBM_PER_RBW +
         linearToDb (IAPBW_HZ example_interf / GWPZ_RBW_HZ example_interf) - MG_GWPZ_DB)"
proof -
  let ?margin = "dbToLinear (linearToDb (1 / 2) - 81)"
  have lt: "dbToLinear (- 100) < ?margin"
    using linearToDb_half by simp
  have loop: "convergence_loop (\<lambda>grant eirp. dbToLinear eirp) [example_grant (- 100) True] ?margin =
    Some \<lparr>interference_quota = ?margin - dbToLinear (- 100), num_unsatisfied_grants = 0,
          fair_share = ?margin,
          aggr_interference = dbToLinear (- 100), a_sas_p_interference = dbToLinear (- 100),
          grant_initialize_flag = [False], grants_eirp = [- 100]\<rparr>"
    using lt by (subst convergence_loop_single) (simp_all add: example_grant_def)
  have env: "IAPBW_HZ example_interf / GWPZ_RBW_HZ example_interf = 1 / 2"
    "getGrantObjectsFromFAD example_interf [example_grant (- 100) True] [] =
       [example_grant (- 100) True]"
    by (simp_all add: example_interf_def)
  have chans: "getProtectedChannels example_interf 3550000000 3555000000 =
      [(3550000000, 3555000000)]"
    by (simp add: example_interf_def)
  have point: "iapPointConstraint example_interf (1, 2) [(3550000000, 3555000000)]
      3550000000 3555000000 [example_grant (- 100) True] None None (Some ''RURAL'')
      ?margin GWPZ_AREA empty_stores =
    Some \<lparr>asas_interference = [(1, [(2, [dbToLinear (- 100)])])],
          aggregate_interference = [(1, [(2, [dbToLinear (- 100)])])]\<rparr>"
    using loop
    by (simp add: iapPointConstraint_def Let_def
        example_interf_def example_grant_def channel_interference_quota_def
        channel_constraint_of_def constraint_channel_def empty_stores_def
        SetAggregateInterferenceInfo_def)
  have "performIapForGwpz example_interf (\<lambda>e n. gwpz_zone e) example_gwpz
     [example_grant (- 100) True] [] empty_stores =
   Some (Inr [(1, [(2, [linearToDb (1 / 2) - 80])])],
         \<lparr>asas_interference = [(1, [(2, [dbToLinear (- 100)])])],
          aggregate_interference = [(1, [(2, [dbToLinear (- 100)])])]\<rparr>)"
    unfolding performIapForGwpz_def Let_def
    using chans point env
    by (simp add: example_gwpz_def Q_GWPZ_DBM_PER_RBW_def MG_GWPZ_DB_def
        reset_stores_def empty_stores_def calculateApIapRef_def)
  with linearToDb_half show ?thesis by (simp add: env)
qed

end
